theory Spec2Isabelle
  imports Main
begin

section \<open>Smart playlists: the rule tree and its compilation to SQL\<close>

text \<open>
  A shallow embedding of \<^verbatim>\<open>xbmc/playlists/SmartPlayList.cpp\<close>. Strings are
  \<^typ>\<open>string\<close>, the C++ \<^verbatim>\<open>int\<close> is written as \<^typ>\<open>int\<close> with the
  conversion from \<^verbatim>\<open>long\<close> spelled out, and \<^verbatim>\<open>std::vector::at\<close> on an
  empty vector is the error value \<open>out_of_range\<close>.
\<close>

subsection \<open>Data model\<close>

text \<open>
  The enumeration \<^verbatim>\<open>Field\<close> is declared in \<^verbatim>\<open>utils/DatabaseUtils.h\<close>. The
  constructors below are the enumerators that the embedded functions name;
  \<open>FieldOther n\<close> stands for every other enumerator (\<^verbatim>\<open>FieldTitle\<close>,
  \<^verbatim>\<open>FieldAlbum\<close>, ...), which those functions only ever treat generically.
  \<open>FieldUnknown\<close> is the least and \<open>FieldMax\<close> the greatest enumerator.
\<close>

datatype Field =
    FieldUnknown | FieldNone | FieldId | FieldGenre | FieldSource | FieldTime
  | FieldLastPlayed | FieldDateAdded | FieldPlaycount | FieldDiscTitle
  | FieldDirector | FieldActor | FieldWriter | FieldStudio | FieldCountry | FieldTag
  | FieldArtist | FieldAlbumArtist | FieldMPAA
  | FieldNumberOfEpisodes | FieldNumberOfWatchedEpisodes
  | FieldVideoResolution | FieldAudioChannels | FieldVideoCodec | FieldAudioCodec
  | FieldAudioLanguage | FieldSubtitleLanguage | FieldVideoAspectRatio
  | FieldAudioCount | FieldSubtitleCount
  | FieldInProgress | FieldTrailer | FieldCompilation | FieldIsBoxset | FieldYear
  | FieldVirtualFolder | FieldPlaylist | FieldRole | FieldPath
  | FieldOther nat | FieldMax

text \<open>
  Modelled from the spec: the enumeration \<^verbatim>\<open>CDatabaseQueryRule::SEARCH_OPERATOR\<close>
  is declared in \<^verbatim>\<open>dbwrappers/DatabaseQuery.h\<close>, which is not part of the
  sources at hand. The spec lists equality/inequality, contains/does-not-contain,
  greater/less-than, before/after, in-the-last/not-in-the-last, starts/ends-with and
  boolean true/false; the names are those \<^verbatim>\<open>SmartPlayList.cpp\<close> uses.
\<close>

datatype SEARCH_OPERATOR =
    OPERATOR_CONTAINS | OPERATOR_DOES_NOT_CONTAIN
  | OPERATOR_EQUALS | OPERATOR_DOES_NOT_EQUAL
  | OPERATOR_STARTS_WITH | OPERATOR_ENDS_WITH
  | OPERATOR_GREATER_THAN | OPERATOR_LESS_THAN
  | OPERATOR_AFTER | OPERATOR_BEFORE
  | OPERATOR_IN_THE_LAST | OPERATOR_NOT_IN_THE_LAST
  | OPERATOR_TRUE | OPERATOR_FALSE

text \<open>A rule: the members \<^verbatim>\<open>m_field\<close>, \<^verbatim>\<open>m_operator\<close>, \<^verbatim>\<open>m_parameter\<close>.\<close>

record rule =
  m_field :: Field
  m_operator :: SEARCH_OPERATOR
  m_parameter :: "string list"

text \<open>
  A rule combination: the members \<^verbatim>\<open>m_type\<close>, \<^verbatim>\<open>m_combinations\<close> and
  \<^verbatim>\<open>m_rules\<close>. The shared pointers of the source own a tree, so the children are
  lists of values.
\<close>

datatype CombinationType = CombinationOr | CombinationAnd

datatype combination =
  Combination (m_type: CombinationType) (m_combinations: "combination list")
    (m_rules: "rule list")

text \<open>
  A playlist, with the members the compilation reads (limit, order and grouping play
  no part in the WHERE clause).
\<close>

record playlist =
  m_playlistName :: string
  m_playlistType :: string
  m_ruleCombination :: combination

datatype error = out_of_range

subsection \<open>Collaborators outside the sources at hand\<close>

text \<open>
  \<^verbatim>\<open>CDatabase::ExistsSubQuery\<close> (\<^verbatim>\<open>dbwrappers/Database.h\<close>): the constructor
  takes the table name and the correlation parameter; \<^verbatim>\<open>SmartPlayList.cpp\<close> also
  assigns the member \<^verbatim>\<open>where\<close>. A new object has an empty join and an empty
  where.
\<close>

record ExistsSubQuery =
  tablename :: string
  param :: string
  join :: string
  "where" :: string

definition new_ExistsSubQuery :: "string \<Rightarrow> string \<Rightarrow> ExistsSubQuery" where
  "new_ExistsSubQuery table p = \<lparr>tablename = table, param = p, join = [], where = []\<rparr>"

text \<open>The enumerators of \<^verbatim>\<open>CStreamDetail::StreamType\<close> (\<^verbatim>\<open>utils/StreamDetails.h\<close>).\<close>

datatype StreamType = VIDEO | AUDIO | SUBTITLE

text \<open>
  Everything the embedded functions call that is defined elsewhere is a parameter of
  the model, one field each, named after the function or constant it stands for:
  \<^item> \<^verbatim>\<open>DatabaseUtils::GetField(field, mediaType, DatabaseQueryPartWhere)\<close>,
    \<^verbatim>\<open>DatabaseUtils::GetNativeTable\<close>, \<^verbatim>\<open>CMediaTypes::FromString\<close> and the
    \<^verbatim>\<open>MediaType...\<close> string constants;
  \<^item> \<^verbatim>\<open>CDatabase::PrepareSQL\<close> with a string and with a stream type argument,
    \<^verbatim>\<open>StringUtils::TimeStringToSeconds\<close>, \<^verbatim>\<open>EqualsNoCase\<close> and
    \<^verbatim>\<open>Replace\<close> (the value of the string after the call);
  \<^item> the base class \<^verbatim>\<open>CDatabaseQueryRule\<close>: \<^verbatim>\<open>FormatParameter\<close>,
    \<^verbatim>\<open>FormatWhereClause\<close>, \<^verbatim>\<open>FormatParameters\<close> and
    \<^verbatim>\<open>GetWhereClause\<close> (what \<^verbatim>\<open>rule->GetWhereClause(db, strType)\<close> returns);
  \<^item> the methods of \<^verbatim>\<open>ExistsSubQuery\<close>: \<^verbatim>\<open>AppendJoin\<close> and
    \<^verbatim>\<open>AppendWhere\<close> return the object after the call, \<^verbatim>\<open>BuildSQL\<close> the
    string it assigns to its argument;
  \<^item> the playlist store: \<^verbatim>\<open>CSmartPlaylistDirectory::GetPlaylistByName\<close> (the
    file of a playlist, empty when there is none) and the files that
    \<^verbatim>\<open>CSmartPlaylist::Load\<close> can read, each with the playlist it holds. The store
    is a list: it is finite.
\<close>

record externals =
  DatabaseUtils_GetField :: "Field \<Rightarrow> string \<Rightarrow> string"
  DatabaseUtils_GetNativeTable :: "Field \<Rightarrow> string \<Rightarrow> string"
  CMediaTypes_FromString :: "string \<Rightarrow> string"
  MediaTypeNone :: string
  MediaTypeMusic :: string
  MediaTypeArtist :: string
  MediaTypeAlbum :: string
  MediaTypeSong :: string
  MediaTypeMovie :: string
  MediaTypeTvShow :: string
  MediaTypeEpisode :: string
  MediaTypeMusicVideo :: string
  PrepareSQL :: "string \<Rightarrow> string \<Rightarrow> string"
  PrepareSQL_stream :: "string \<Rightarrow> StreamType \<Rightarrow> string"
  TimeStringToSeconds :: "string \<Rightarrow> int"
  EqualsNoCase :: "string \<Rightarrow> string \<Rightarrow> bool"
  Replace :: "string \<Rightarrow> string \<Rightarrow> string \<Rightarrow> string"
  Base_FormatParameter :: "rule \<Rightarrow> string \<Rightarrow> string \<Rightarrow> string \<Rightarrow> string"
  Base_FormatWhereClause :: "rule \<Rightarrow> string \<Rightarrow> string \<Rightarrow> string \<Rightarrow> string \<Rightarrow> string"
  Base_FormatParameters :: "rule \<Rightarrow> string \<Rightarrow> string \<Rightarrow> string \<Rightarrow> string"
  Rule_GetWhereClause :: "rule \<Rightarrow> string \<Rightarrow> string"
  AppendJoin :: "ExistsSubQuery \<Rightarrow> string \<Rightarrow> ExistsSubQuery"
  AppendWhere :: "ExistsSubQuery \<Rightarrow> string \<Rightarrow> ExistsSubQuery"
  BuildSQL :: "ExistsSubQuery \<Rightarrow> string"
  GetPlaylistByName :: "string \<Rightarrow> string \<Rightarrow> string"
  playlist_files :: "(string \<times> playlist) list"

subsection \<open>The C library calls the compiler makes\<close>

text \<open>
  \<^verbatim>\<open>std::strtol(parameter.c_str(), NULL, 10)\<close>: the C string ends at the first
  NUL; white space is skipped, one sign is accepted, the longest run of decimal digits
  is read (none gives 0), and a value outside \<^verbatim>\<open>long\<close> is clamped to
  \<^verbatim>\<open>LONG_MIN\<close>/\<^verbatim>\<open>LONG_MAX\<close> (a 64-bit \<^verbatim>\<open>long\<close>). The cast
  \<^verbatim>\<open>(int)\<close> keeps the low 32 bits in two's complement.
\<close>

definition c_str :: "string \<Rightarrow> string" where
  "c_str s = takeWhile (\<lambda>c. c \<noteq> CHR 0x00) s"

definition isspace :: "char \<Rightarrow> bool" where
  "isspace c = (c \<in> set [CHR '' '', CHR 0x09, CHR 0x0A, CHR 0x0B, CHR 0x0C, CHR 0x0D])"

definition isdigit :: "char \<Rightarrow> bool" where
  "isdigit c = (c \<in> set ''0123456789'')"

definition digit_value :: "char \<Rightarrow> int" where
  "digit_value c = int (of_char c) - int (of_char (CHR ''0''))"

definition LONG_MAX :: int where "LONG_MAX = 9223372036854775807"
definition LONG_MIN :: int where "LONG_MIN = - 9223372036854775808"
definition INT_MAX :: int where "INT_MAX = 2147483647"

definition strtol :: "string \<Rightarrow> int" where
  "strtol s =
     (let s1 = dropWhile isspace (c_str s);
          neg = (s1 \<noteq> [] \<and> hd s1 = CHR ''-'');
          s2 = (if s1 \<noteq> [] \<and> (hd s1 = CHR ''-'' \<or> hd s1 = CHR ''+'') then tl s1 else s1);
          v = foldl (\<lambda>acc c. acc * 10 + digit_value c) 0 (takeWhile isdigit s2);
          sv = (if neg then - v else v)
      in max LONG_MIN (min LONG_MAX sv))"

definition long_to_int :: "int \<Rightarrow> int" where
  "long_to_int x = (x + 2147483648) mod 4294967296 - 2147483648"

text \<open>The conversion \<^verbatim>\<open>%i\<close> of \<^verbatim>\<open>StringUtils::Format\<close>: a decimal numeral.\<close>

function digits_of_nat :: "nat \<Rightarrow> string" where
  "digits_of_nat n =
     (if n < 10 then [''0123456789'' ! n]
      else digits_of_nat (n div 10) @ [''0123456789'' ! (n mod 10)])"
  by pat_completeness auto
termination
  by (relation "measure (\<lambda>n. n)") auto

declare digits_of_nat.simps [simp del]

definition format_int :: "int \<Rightarrow> string" where
  "format_int i = (if i < 0 then CHR ''-'' # digits_of_nat (nat (- i)) else digits_of_nat (nat i))"

subsection \<open>\<^verbatim>\<open>CSmartPlaylistRule::GetVideoResolutionQuery\<close>\<close>

definition resolution_bounds :: "int \<Rightarrow> int \<times> int" where
  "resolution_bounds iRes =
     (if iRes \<ge> 2160 then (1921, INT_MAX)
      else if iRes \<ge> 1080 then (1281, 1920)
      else if iRes \<ge> 720 then (961, 1280)
      else if iRes \<ge> 540 then (721, 960)
      else (0, 720))"

definition GetVideoResolutionQuery :: "rule \<Rightarrow> string \<Rightarrow> string" where
  "GetVideoResolutionQuery r parameter =
     (let retVal = '' IN (SELECT DISTINCT idFile FROM streamdetails WHERE iVideoWidth '';
          iRes = long_to_int (strtol parameter);
          (min, max) = resolution_bounds iRes;
          retVal =
            (case m_operator r of
               OPERATOR_EQUALS \<Rightarrow>
                 retVal @ ''>= '' @ format_int min @ '' AND iVideoWidth <= '' @ format_int max
             | OPERATOR_DOES_NOT_EQUAL \<Rightarrow>
                 retVal @ ''< '' @ format_int min @ '' OR iVideoWidth > '' @ format_int max
             | OPERATOR_LESS_THAN \<Rightarrow> retVal @ ''< '' @ format_int min
             | OPERATOR_GREATER_THAN \<Rightarrow> retVal @ ''> '' @ format_int max
             | _ \<Rightarrow> retVal)
      in retVal @ '')'')"

subsection \<open>\<^verbatim>\<open>CSmartPlaylistRule\<close>: formatting one rule\<close>

definition FormatParameter :: "externals \<Rightarrow> rule \<Rightarrow> string \<Rightarrow> string \<Rightarrow> string \<Rightarrow> string" where
  "FormatParameter ext r operatorString parameter strType =
     (if m_field r = FieldTime then
        (let seconds = format_int (TimeStringToSeconds ext parameter)
         in PrepareSQL ext (c_str operatorString) (c_str seconds))
      else Base_FormatParameter ext r operatorString parameter strType)"

text \<open>
  \<^verbatim>\<open>StringUtils::Format\<close> with \<^verbatim>\<open>%s\<close> conversions only: each argument is
  copied up to its first NUL.
\<close>

definition FormatLinkQuery :: "string \<Rightarrow> string \<Rightarrow> string \<Rightarrow> string \<Rightarrow> string \<Rightarrow> string" where
  "FormatLinkQuery field table mediaType mediaField parameter =
     '' EXISTS (SELECT 1 FROM '' @ field @ ''_link''
     @ ''         JOIN '' @ table @ '' ON '' @ table @ ''.'' @ table @ ''_id='' @ field
     @ ''_link.'' @ table @ ''_id''
     @ ''         WHERE '' @ field @ ''_link.media_id='' @ c_str mediaField @ '' AND '' @ table
     @ ''.name '' @ c_str parameter @ '' AND '' @ field @ ''_link.media_type = ''
     @ [CHR 0x27] @ c_str mediaType @ [CHR 0x27] @ '')''"

text \<open>
  \<^verbatim>\<open>CSmartPlaylistRule::GetField\<close>: the range test
  \<^verbatim>\<open>field >= FieldUnknown && field < FieldMax\<close> excludes \<open>FieldMax\<close> only.
\<close>

definition GetField :: "externals \<Rightarrow> Field \<Rightarrow> string \<Rightarrow> string" where
  "GetField ext field type =
     (if field \<noteq> FieldMax
      then DatabaseUtils_GetField ext field (CMediaTypes_FromString ext type)
      else [])"

definition streamdetails_query :: "string \<Rightarrow> string \<Rightarrow> string \<Rightarrow> string \<Rightarrow> string" where
  "streamdetails_query negate table column parameter =
     negate @ '' EXISTS (SELECT 1 FROM streamdetails WHERE streamdetails.idFile = '' @ table
     @ ''.idFile AND '' @ column @ '' '' @ parameter @ '')''"

definition FormatWhereClause ::
  "externals \<Rightarrow> rule \<Rightarrow> string \<Rightarrow> string \<Rightarrow> string \<Rightarrow> string \<Rightarrow> string" where
  "FormatWhereClause ext r negate oper parameter0 strType =
     (let parameter = FormatParameter ext r oper parameter0 strType;
          f = m_field r;
          lessBeforeNotInLast =
            (m_operator r = OPERATOR_LESS_THAN \<or> m_operator r = OPERATOR_BEFORE
             \<or> m_operator r = OPERATOR_NOT_IN_THE_LAST);
          (table, query) =
            (if strType = ''songs'' then
               (''songview'',
                if f = FieldLastPlayed \<and> lessBeforeNotInLast
                then GetField ext f strType @ '' is NULL or '' @ GetField ext f strType @ parameter
                else [])
             else if strType = ''albums'' then
               (''albumview'',
                if f = FieldLastPlayed \<and> lessBeforeNotInLast
                then GetField ext f strType @ '' is NULL or '' @ GetField ext f strType @ parameter
                else if f = FieldDiscTitle
                then negate @ '' EXISTS (SELECT 1 FROM song WHERE song.idAlbum = ''
                       @ GetField ext FieldId strType @ '' AND song.strDiscSubtitle'' @ parameter
                       @ '')''
                else [])
             else if strType = ''artists'' then (''artistview'', [])
             else if strType = ''movies'' then
               (''movie_view'',
                if f = FieldGenre then negate @ FormatLinkQuery ''genre'' ''genre''
                       (MediaTypeMovie ext) (GetField ext FieldId strType) parameter
                else if f = FieldDirector then negate @ FormatLinkQuery ''director'' ''actor''
                       (MediaTypeMovie ext) (GetField ext FieldId strType) parameter
                else if f = FieldActor then negate @ FormatLinkQuery ''actor'' ''actor''
                       (MediaTypeMovie ext) (GetField ext FieldId strType) parameter
                else if f = FieldWriter then negate @ FormatLinkQuery ''writer'' ''actor''
                       (MediaTypeMovie ext) (GetField ext FieldId strType) parameter
                else if f = FieldStudio then negate @ FormatLinkQuery ''studio'' ''studio''
                       (MediaTypeMovie ext) (GetField ext FieldId strType) parameter
                else if f = FieldCountry then negate @ FormatLinkQuery ''country'' ''country''
                       (MediaTypeMovie ext) (GetField ext FieldId strType) parameter
                else if (f = FieldLastPlayed \<or> f = FieldDateAdded) \<and> lessBeforeNotInLast
                then GetField ext f strType @ '' IS NULL OR '' @ GetField ext f strType @ parameter
                else if f = FieldTag then negate @ FormatLinkQuery ''tag'' ''tag''
                       (MediaTypeMovie ext) (GetField ext FieldId strType) parameter
                else [])
             else if strType = ''musicvideos'' then
               (''musicvideo_view'',
                if f = FieldGenre then negate @ FormatLinkQuery ''genre'' ''genre''
                       (MediaTypeMusicVideo ext) (GetField ext FieldId strType) parameter
                else if f = FieldArtist \<or> f = FieldAlbumArtist
                then negate @ FormatLinkQuery ''actor'' ''actor''
                       (MediaTypeMusicVideo ext) (GetField ext FieldId strType) parameter
                else if f = FieldStudio then negate @ FormatLinkQuery ''studio'' ''studio''
                       (MediaTypeMusicVideo ext) (GetField ext FieldId strType) parameter
                else if f = FieldDirector then negate @ FormatLinkQuery ''director'' ''actor''
                       (MediaTypeMusicVideo ext) (GetField ext FieldId strType) parameter
                else if (f = FieldLastPlayed \<or> f = FieldDateAdded) \<and> lessBeforeNotInLast
                then GetField ext f strType @ '' IS NULL OR '' @ GetField ext f strType @ parameter
                else if f = FieldTag then negate @ FormatLinkQuery ''tag'' ''tag''
                       (MediaTypeMusicVideo ext) (GetField ext FieldId strType) parameter
                else [])
             else if strType = ''tvshows'' then
               (''tvshow_view'',
                if f = FieldGenre then negate @ FormatLinkQuery ''genre'' ''genre''
                       (MediaTypeTvShow ext) (GetField ext FieldId strType) parameter
                else if f = FieldDirector then negate @ FormatLinkQuery ''director'' ''actor''
                       (MediaTypeTvShow ext) (GetField ext FieldId strType) parameter
                else if f = FieldActor then negate @ FormatLinkQuery ''actor'' ''actor''
                       (MediaTypeTvShow ext) (GetField ext FieldId strType) parameter
                else if f = FieldStudio then negate @ FormatLinkQuery ''studio'' ''studio''
                       (MediaTypeTvShow ext) (GetField ext FieldId strType) parameter
                else if f = FieldMPAA
                then negate @ '' ('' @ GetField ext f strType @ parameter @ '')''
                else if (f = FieldLastPlayed \<or> f = FieldDateAdded) \<and> lessBeforeNotInLast
                then GetField ext f strType @ '' IS NULL OR '' @ GetField ext f strType @ parameter
                else if f = FieldPlaycount
                then ''CASE WHEN COALESCE('' @ GetField ext FieldNumberOfEpisodes strType @ '' - ''
                       @ GetField ext FieldNumberOfWatchedEpisodes strType
                       @ '', 0) > 0 THEN 0 ELSE 1 END '' @ parameter
                else if f = FieldTag then negate @ FormatLinkQuery ''tag'' ''tag''
                       (MediaTypeTvShow ext) (GetField ext FieldId strType) parameter
                else [])
             else if strType = ''episodes'' then
               (''episode_view'',
                if f = FieldGenre then negate @ FormatLinkQuery ''genre'' ''genre''
                       (MediaTypeTvShow ext) (c_str (''episode_view'' @ ''.idShow'')) parameter
                else if f = FieldTag then negate @ FormatLinkQuery ''tag'' ''tag''
                       (MediaTypeTvShow ext) (c_str (''episode_view'' @ ''.idShow'')) parameter
                else if f = FieldDirector then negate @ FormatLinkQuery ''director'' ''actor''
                       (MediaTypeEpisode ext) (GetField ext FieldId strType) parameter
                else if f = FieldActor then negate @ FormatLinkQuery ''actor'' ''actor''
                       (MediaTypeEpisode ext) (GetField ext FieldId strType) parameter
                else if f = FieldWriter then negate @ FormatLinkQuery ''writer'' ''actor''
                       (MediaTypeEpisode ext) (GetField ext FieldId strType) parameter
                else if (f = FieldLastPlayed \<or> f = FieldDateAdded) \<and> lessBeforeNotInLast
                then GetField ext f strType @ '' IS NULL OR '' @ GetField ext f strType @ parameter
                else if f = FieldStudio then negate @ FormatLinkQuery ''studio'' ''studio''
                       (MediaTypeTvShow ext) (c_str (''episode_view'' @ ''.idShow'')) parameter
                else if f = FieldMPAA
                then negate @ '' ('' @ GetField ext f strType @ parameter @ '')''
                else [])
             else ([], []));
          query =
            (if f = FieldVideoResolution
             then table @ ''.idFile'' @ negate @ GetVideoResolutionQuery r parameter0
             else if f = FieldAudioChannels
             then streamdetails_query negate table ''iAudioChannels'' parameter
             else if f = FieldVideoCodec
             then streamdetails_query negate table ''strVideoCodec'' parameter
             else if f = FieldAudioCodec
             then streamdetails_query negate table ''strAudioCodec'' parameter
             else if f = FieldAudioLanguage
             then streamdetails_query negate table ''strAudioLanguage'' parameter
             else if f = FieldSubtitleLanguage
             then streamdetails_query negate table ''strSubtitleLanguage'' parameter
             else if f = FieldVideoAspectRatio
             then streamdetails_query negate table ''fVideoAspect'' parameter
             else if f = FieldAudioCount
             then PrepareSQL_stream ext
                    (negate @ '' EXISTS (SELECT 1 FROM streamdetails WHERE streamdetails.idFile = ''
                     @ table @ ''.idFile AND streamdetails.iStreamtype = %i GROUP BY streamdetails.idFile HAVING COUNT(streamdetails.iStreamType) ''
                     @ parameter @ '')'') AUDIO
             else if f = FieldSubtitleCount
             then PrepareSQL_stream ext
                    (negate @ '' EXISTS (SELECT 1 FROM streamdetails WHERE streamdetails.idFile = ''
                     @ table @ ''.idFile AND streamdetails.iStreamType = %i GROUP BY streamdetails.idFile HAVING COUNT(streamdetails.iStreamType) ''
                     @ parameter @ '')'') SUBTITLE
             else query);
          query =
            (if f = FieldPlaycount \<and> strType \<noteq> ''songs'' \<and> strType \<noteq> ''albums''
                \<and> strType \<noteq> ''tvshows''
             then
               (if (m_operator r = OPERATOR_EQUALS \<and> parameter0 = ''0'')
                   \<or> (m_operator r = OPERATOR_DOES_NOT_EQUAL \<and> parameter0 \<noteq> ''0'')
                   \<or> m_operator r = OPERATOR_LESS_THAN
                then (let field = GetField ext FieldPlaycount strType
                      in field @ '' IS NULL OR '' @ field @ parameter)
                else query)
             else query)
      in if query = [] then Base_FormatWhereClause ext r negate oper parameter0 strType
         else query)"

text \<open>
  \<^verbatim>\<open>CSmartPlaylistRule::FormatParameters\<close>. The loop over \<^verbatim>\<open>m_parameter\<close> is
  written twice in the source, for genre rules of songs and for source rules of
  albums, with the same body; \<open>parameter_clauses\<close> is that body, carrying the
  subquery object and the query built so far.
\<close>

fun parameter_clauses ::
  "externals \<Rightarrow> rule \<Rightarrow> string \<Rightarrow> string \<Rightarrow> string list \<Rightarrow> ExistsSubQuery \<Rightarrow> string
     \<Rightarrow> ExistsSubQuery \<times> string" where
  "parameter_clauses ext r negate oper [] existsQuery wholeQuery = (existsQuery, wholeQuery)"
| "parameter_clauses ext r negate oper (it # rest) existsQuery wholeQuery =
     (let clause = FormatWhereClause ext r [] oper it (MediaTypeMusic ext) in
      if negate = [] then
        parameter_clauses ext r negate oper rest existsQuery
          ((if wholeQuery \<noteq> [] then wholeQuery @ '' OR '' else wholeQuery) @ clause)
      else
        (let existsQuery = AppendWhere ext existsQuery clause;
             clause = BuildSQL ext existsQuery;
             existsQuery = existsQuery\<lparr>where := []\<rparr>;
             clause = negate @ clause
         in parameter_clauses ext r negate oper rest existsQuery
              ((if wholeQuery \<noteq> [] then wholeQuery @ '' AND '' else wholeQuery) @ clause)))"

definition combined_parameters ::
  "externals \<Rightarrow> rule \<Rightarrow> string \<Rightarrow> string \<Rightarrow> ExistsSubQuery \<Rightarrow> string" where
  "combined_parameters ext r negate oper existsQuery0 =
     (let (existsQuery, wholeQuery) =
            parameter_clauses ext r negate oper (m_parameter r) existsQuery0 []
      in if negate = [] \<and> wholeQuery \<noteq> [] then
           (let wholeQuery =
                  (if length (m_parameter r) > 1 then CHR ''('' # wholeQuery @ '')''
                   else wholeQuery)
            in BuildSQL ext (AppendWhere ext existsQuery wholeQuery))
         else wholeQuery)"

definition FormatParameters :: "externals \<Rightarrow> rule \<Rightarrow> string \<Rightarrow> string \<Rightarrow> string \<Rightarrow> string" where
  "FormatParameters ext r negate oper strType =
     (let wholeQuery =
            (if strType = ''songs'' then
               (if m_field r = FieldGenre then
                  combined_parameters ext r negate oper
                    (AppendJoin ext
                       (new_ExistsSubQuery ''song_genre'' ''song_genre.idSong = songview.idSong'')
                       ''JOIN genre ON genre.idGenre = song_genre.idGenre'')
                else [])
             else if strType = ''albums'' then
               (if m_field r = FieldSource then
                  combined_parameters ext r negate oper
                    (AppendJoin ext
                       (new_ExistsSubQuery ''album_source''
                          ''album_source.idAlbum = albumview.idAlbum'')
                       ''JOIN source ON album_source.idSource = source.idSource'')
                else [])
             else [])
      in if wholeQuery = [] then Base_FormatParameters ext r negate oper strType
         else wholeQuery)"

subsection \<open>\<^verbatim>\<open>CSmartPlaylist::CheckTypeCompatibility\<close>\<close>

definition CheckTypeCompatibility :: "string \<Rightarrow> string \<Rightarrow> bool" where
  "CheckTypeCompatibility typeLeft typeRight =
     (if typeLeft = typeRight then True
      else if typeLeft = ''mixed'' \<and> (typeRight = ''songs'' \<or> typeRight = ''musicvideos'') then True
      else if typeRight = ''mixed'' \<and> (typeLeft = ''songs'' \<or> typeLeft = ''musicvideos'') then True
      else False)"

subsection \<open>The claims in the words of the specification\<close>

text \<open>
  The width bands as the specification states them (thresholds 2161, 1081, 721, 541),
  to be compared with \<open>resolution_bounds\<close>, which is the code's.
\<close>

definition stated_resolution_bounds :: "int \<Rightarrow> int \<times> int" where
  "stated_resolution_bounds iRes =
     (if iRes \<ge> 2161 then (1921, INT_MAX)
      else if iRes \<ge> 1081 then (1281, 1920)
      else if iRes \<ge> 721 then (961, 1280)
      else if iRes \<ge> 541 then (721, 960)
      else (0, 720))"

text \<open>
  The bound check an operator selects on a band: equals is within the band,
  does-not-equal outside it, less-than below its minimum, greater-than above its
  maximum; other operators add no check.
\<close>

definition bound_check :: "SEARCH_OPERATOR \<Rightarrow> int \<Rightarrow> int \<Rightarrow> string" where
  "bound_check oper lo hi =
     (if oper = OPERATOR_EQUALS then
        ''>= '' @ format_int lo @ '' AND iVideoWidth <= '' @ format_int hi
      else if oper = OPERATOR_DOES_NOT_EQUAL then
        ''< '' @ format_int lo @ '' OR iVideoWidth > '' @ format_int hi
      else if oper = OPERATOR_LESS_THAN then ''< '' @ format_int lo
      else if oper = OPERATOR_GREATER_THAN then ''> '' @ format_int hi
      else [])"

definition width_clause :: "SEARCH_OPERATOR \<Rightarrow> int \<Rightarrow> int \<Rightarrow> string" where
  "width_clause oper lo hi =
     '' IN (SELECT DISTINCT idFile FROM streamdetails WHERE iVideoWidth ''
       @ bound_check oper lo hi @ '')''"

subsection \<open>A sample instantiation of the collaborators\<close>

text \<open>
  Modelled from the spec: the collaborators of section 6 (parameter formatting, the
  native-column resolver, the playlist store) and \<^verbatim>\<open>CDatabase::ExistsSubQuery\<close>,
  \<^verbatim>\<open>StringUtils\<close> and \<^verbatim>\<open>CDatabaseQueryRule\<close> are defined outside the sources
  at hand. The instantiation below follows the spec's words: an escaped comparison
  such as \<^verbatim>\<open>LIKE '%value%'\<close>, a column name or the empty string, a lookup of
  the playlist by its display name, and the template
  \<^verbatim>\<open>EXISTS (SELECT 1 FROM <table> JOIN ... WHERE <correlation> AND <condition>)\<close>.
  It serves to evaluate the embedded functions at concrete inputs; the general
  theorems hold for every instantiation.
\<close>

function replace_all :: "string \<Rightarrow> string \<Rightarrow> string \<Rightarrow> string" where
  "replace_all s old new =
     (if s = [] \<or> old = [] then s
      else if take (length old) s = old then new @ replace_all (drop (length old) s) old new
      else hd s # replace_all (tl s) old new)"
  by pat_completeness auto
termination
  by (relation "measure (\<lambda>(s, old, new). length s)") auto

declare replace_all.simps [simp del]

definition tolower :: "char \<Rightarrow> char" where
  "tolower c =
     (case map_of (zip ''ABCDEFGHIJKLMNOPQRSTUVWXYZ'' ''abcdefghijklmnopqrstuvwxyz'') c of
        Some l \<Rightarrow> l | None \<Rightarrow> c)"

definition sample_FromString :: "string \<Rightarrow> string" where
  "sample_FromString t =
     (if t \<in> set [''song'', ''songs''] then ''song''
      else if t \<in> set [''album'', ''albums''] then ''album''
      else if t \<in> set [''artist'', ''artists''] then ''artist''
      else if t \<in> set [''movie'', ''movies''] then ''movie''
      else if t \<in> set [''tvshow'', ''tvshows''] then ''tvshow''
      else if t \<in> set [''episode'', ''episodes''] then ''episode''
      else if t \<in> set [''musicvideo'', ''musicvideos''] then ''musicvideo''
      else if t = ''music'' then ''music''
      else [])"

definition sample_GetField :: "Field \<Rightarrow> string \<Rightarrow> string" where
  "sample_GetField f mediaType =
     (case map_of
        [((FieldGenre, ''music''), ''genre.strGenre''),
         ((FieldSource, ''music''), ''source.strName''),
         ((FieldRole, ''music''), ''role.strRole''),
         ((FieldGenre, ''song''), ''songview.strGenres''),
         ((FieldLastPlayed, ''song''), ''songview.lastplayed''),
         ((FieldPlaycount, ''song''), ''songview.iTimesPlayed''),
         ((FieldYear, ''song''), ''songview.iYear''),
         ((FieldYear, ''album''), ''albumview.iYear''),
         ((FieldArtist, ''artist''), ''artistview.strArtist''),
         ((FieldPlaycount, ''movie''), ''movie_view.playCount''),
         ((FieldLastPlayed, ''movie''), ''movie_view.lastPlayed''),
         ((FieldNumberOfEpisodes, ''tvshow''), ''tvshow_view.totalCount''),
         ((FieldNumberOfWatchedEpisodes, ''tvshow''), ''tvshow_view.watchedcount'')]
        (f, mediaType) of
        Some column \<Rightarrow> column | None \<Rightarrow> [])"

definition sample_GetNativeTable :: "Field \<Rightarrow> string \<Rightarrow> string" where
  "sample_GetNativeTable f mediaType =
     (if (f = FieldArtist \<or> f = FieldAlbumArtist) \<and> mediaType = ''album'' then ''artist''
      else if f = FieldGenre \<and> (mediaType = ''album'' \<or> mediaType = ''artist'') then ''song''
      else [])"

definition sample_comparison :: "SEARCH_OPERATOR \<Rightarrow> string \<Rightarrow> string" where
  "sample_comparison oper v =
     (if oper = OPERATOR_CONTAINS then '' LIKE '' @ [CHR 0x27] @ ''%'' @ v @ ''%'' @ [CHR 0x27]
      else if oper = OPERATOR_DOES_NOT_CONTAIN
      then '' NOT LIKE '' @ [CHR 0x27] @ ''%'' @ v @ ''%'' @ [CHR 0x27]
      else if oper = OPERATOR_DOES_NOT_EQUAL then '' <> '' @ [CHR 0x27] @ v @ [CHR 0x27]
      else if oper = OPERATOR_LESS_THAN \<or> oper = OPERATOR_BEFORE then '' < '' @ [CHR 0x27] @ v @ [CHR 0x27]
      else if oper = OPERATOR_GREATER_THAN \<or> oper = OPERATOR_AFTER then '' > '' @ [CHR 0x27] @ v @ [CHR 0x27]
      else '' = '' @ [CHR 0x27] @ v @ [CHR 0x27])"

definition sample_AppendJoin :: "ExistsSubQuery \<Rightarrow> string \<Rightarrow> ExistsSubQuery" where
  "sample_AppendJoin q strJoin = (if strJoin = [] then q else q\<lparr>join := join q @ '' '' @ strJoin\<rparr>)"

definition sample_AppendWhere :: "ExistsSubQuery \<Rightarrow> string \<Rightarrow> ExistsSubQuery" where
  "sample_AppendWhere q strWhere =
     (if strWhere = [] then q
      else if where q = [] then q\<lparr>where := strWhere\<rparr>
      else q\<lparr>where := where q @ '' AND '' @ strWhere\<rparr>)"

definition sample_BuildSQL :: "ExistsSubQuery \<Rightarrow> string" where
  "sample_BuildSQL q =
     ''EXISTS (SELECT 1 FROM '' @ tablename q @ join q
     @ (if param q = [] \<and> where q = [] then []
        else '' WHERE '' @ param q
             @ (if param q \<noteq> [] \<and> where q \<noteq> [] then '' AND '' else []) @ where q)
     @ '')''"

definition sample_GetPlaylistByName :: "(string \<times> playlist) list \<Rightarrow> string \<Rightarrow> string \<Rightarrow> string" where
  "sample_GetPlaylistByName files name playlistType =
     (case find (\<lambda>(file, pl). m_playlistName pl = name) files of
        Some (file, pl) \<Rightarrow> file | None \<Rightarrow> [])"

definition sample_externals :: "(string \<times> playlist) list \<Rightarrow> externals" where
  "sample_externals files =
     \<lparr>DatabaseUtils_GetField = sample_GetField,
      DatabaseUtils_GetNativeTable = sample_GetNativeTable,
      CMediaTypes_FromString = sample_FromString,
      MediaTypeNone = [], MediaTypeMusic = ''music'', MediaTypeArtist = ''artist'',
      MediaTypeAlbum = ''album'', MediaTypeSong = ''song'', MediaTypeMovie = ''movie'',
      MediaTypeTvShow = ''tvshow'', MediaTypeEpisode = ''episode'',
      MediaTypeMusicVideo = ''musicvideo'',
      PrepareSQL = (\<lambda>fmt v. replace_all fmt ''%s'' v),
      PrepareSQL_stream =
        (\<lambda>fmt st. replace_all fmt ''%i''
           (case st of VIDEO \<Rightarrow> ''0'' | AUDIO \<Rightarrow> ''1'' | SUBTITLE \<Rightarrow> ''2'')),
      TimeStringToSeconds = strtol,
      EqualsNoCase = (\<lambda>a b. map tolower a = map tolower b),
      Replace = replace_all,
      Base_FormatParameter = (\<lambda>r oper v strType. replace_all oper ''%s'' v),
      Base_FormatWhereClause =
        (\<lambda>r negate oper v strType.
           sample_GetField (m_field r) (sample_FromString strType) @ negate
           @ replace_all oper ''%s'' v),
      Base_FormatParameters = (\<lambda>r negate oper strType. []),
      Rule_GetWhereClause =
        (\<lambda>r strType.
           case m_parameter r of [] \<Rightarrow> []
           | v # _ \<Rightarrow> ''('' @ sample_GetField (m_field r) (sample_FromString strType)
                       @ sample_comparison (m_operator r) v @ '')''),
      AppendJoin = sample_AppendJoin,
      AppendWhere = sample_AppendWhere,
      BuildSQL = sample_BuildSQL,
      GetPlaylistByName = sample_GetPlaylistByName files,
      playlist_files = files\<rparr>"

subsection \<open>The claims in the words of the specification, continued\<close>

text \<open>
  The three comparison operators of the nullable fallback, and the shape
  \<^verbatim>\<open>field IS NULL OR field <comparison>\<close> with the separator as the code writes it.
\<close>

definition less_before_notinlast :: "rule \<Rightarrow> bool" where
  "less_before_notinlast r =
     (m_operator r = OPERATOR_LESS_THAN \<or> m_operator r = OPERATOR_BEFORE
      \<or> m_operator r = OPERATOR_NOT_IN_THE_LAST)"

definition null_or :: "string \<Rightarrow> string \<Rightarrow> string \<Rightarrow> string" where
  "null_or field sep comparison = field @ sep @ field @ comparison"

text \<open>
  Clauses joined by a separator, the subquery of a genre rule on songs, the clause of
  each parameter value, and the frame condition on the subquery's methods that the
  source relies on when it clears \<^verbatim>\<open>where\<close> for the next parameter:
  \<^verbatim>\<open>AppendWhere\<close> changes nothing but \<^verbatim>\<open>where\<close>, and \<^verbatim>\<open>AppendJoin\<close>
  leaves it alone.
\<close>

fun join_with :: "string \<Rightarrow> string list \<Rightarrow> string" where
  "join_with sep [] = []"
| "join_with sep [x] = x"
| "join_with sep (x # y # ys) = x @ sep @ join_with sep (y # ys)"

definition append_frame :: "externals \<Rightarrow> bool" where
  "append_frame ext =
     ((\<forall>q s. (AppendWhere ext q s)\<lparr>where := []\<rparr> = q\<lparr>where := []\<rparr>)
      \<and> (\<forall>q s. where (AppendJoin ext q s) = where q))"

definition genre_subquery :: "externals \<Rightarrow> ExistsSubQuery" where
  "genre_subquery ext =
     AppendJoin ext (new_ExistsSubQuery ''song_genre'' ''song_genre.idSong = songview.idSong'')
       ''JOIN genre ON genre.idGenre = song_genre.idGenre''"

definition genre_clauses :: "externals \<Rightarrow> rule \<Rightarrow> string \<Rightarrow> string list" where
  "genre_clauses ext r oper =
     map (\<lambda>v. FormatWhereClause ext r [] oper v (MediaTypeMusic ext)) (m_parameter r)"

subsection \<open>\<^verbatim>\<open>CSmartPlaylistRuleCombination\<close>: helpers\<close>

definition CombineClause :: "CombinationType \<Rightarrow> string \<Rightarrow> string \<Rightarrow> string" where
  "CombineClause ty original clause =
     (let rule = original in
      if clause \<noteq> [] then
        (let rule = (if original \<noteq> []
                     then rule @ (if ty = CombinationAnd then '' AND '' else '' OR '') @ ''(''
                     else rule);
             rule = rule @ clause
         in if original \<noteq> [] then rule @ '')'' else rule)
      else rule)"

definition IsFieldRuleSimple :: "externals \<Rightarrow> Field \<Rightarrow> string \<Rightarrow> bool" where
  "IsFieldRuleSimple ext field mediaType =
     (if field = FieldNone \<or> mediaType = MediaTypeNone ext then True
      else if mediaType \<noteq> MediaTypeArtist ext \<and> mediaType \<noteq> MediaTypeAlbum ext
              \<and> mediaType \<noteq> MediaTypeSong ext then True
      else if mediaType = MediaTypeAlbum ext then
        (if field = FieldArtist \<or> field = FieldAlbumArtist then False
         else if field = FieldSource then True
         else DatabaseUtils_GetField ext field mediaType \<noteq> [])
      else if mediaType = MediaTypeSong ext then
        (if field = FieldArtist \<or> field = FieldAlbumArtist then False
         else DatabaseUtils_GetField ext field mediaType \<noteq> [])
      else DatabaseUtils_GetField ext field mediaType \<noteq> [])"

definition IsFieldNative :: "externals \<Rightarrow> Field \<Rightarrow> string \<Rightarrow> string \<Rightarrow> bool" where
  "IsFieldNative ext field mediaType strTable =
     (let strTablename = DatabaseUtils_GetNativeTable ext field mediaType
      in strTablename \<noteq> [] \<and> strTablename = strTable)"

subsection \<open>\<^verbatim>\<open>CSmartPlaylistRuleCombination::GetRolesWhereClause\<close>\<close>

text \<open>
  The local flags of the first loop, and the rules it gathers in \<^verbatim>\<open>roleRules\<close>.
\<close>

record role_scan =
  bWildRoleRule :: bool
  bAlbumartistRule :: bool
  bArtistRule :: bool
  bNegAlbumartistRule :: bool
  bNegArtistRule :: bool
  roleRules :: "rule list"

text \<open>The four reference parameters, as they stand when the function returns.\<close>

record role_flags =
  bAlbumArtists :: bool
  bSongArtists :: bool
  bJoinRole :: bool
  bRoleRules :: bool

definition negated_operator :: "rule \<Rightarrow> bool" where
  "negated_operator r =
     (m_operator r = OPERATOR_DOES_NOT_CONTAIN \<or> m_operator r = OPERATOR_DOES_NOT_EQUAL)"

text \<open>
  The first loop, over \<^verbatim>\<open>m_rules\<close>; the second component of the state is the
  reference parameter \<^verbatim>\<open>bRoleRules\<close>. \<^verbatim>\<open>m_parameter.at(0)\<close> throws on a role
  rule without parameters.
\<close>

fun examine_roles ::
  "externals \<Rightarrow> CombinationType \<Rightarrow> rule list \<Rightarrow> role_scan \<times> bool \<Rightarrow> error + role_scan \<times> bool"
  where
  "examine_roles ext ty [] st = Inr st"
| "examine_roles ext ty (r # rs) (sc, roles) =
     (if m_field r = FieldRole then
        (case m_parameter r of
           [] \<Rightarrow> Inl out_of_range
         | v # _ \<Rightarrow>
             if EqualsNoCase ext v ''albumartist'' then
               examine_roles ext ty rs
                 (sc\<lparr>bAlbumartistRule := (ty = CombinationAnd),
                     bNegAlbumartistRule := negated_operator r\<rparr>, True)
             else if EqualsNoCase ext v ''artist'' then
               examine_roles ext ty rs
                 (sc\<lparr>bArtistRule := (ty = CombinationAnd),
                     bNegArtistRule := negated_operator r\<rparr>, True)
             else if EqualsNoCase ext v ''%'' then
               examine_roles ext ty rs (sc\<lparr>bWildRoleRule := True\<rparr>, True)
             else examine_roles ext ty rs (sc\<lparr>roleRules := roleRules sc @ [r]\<rparr>, True))
      else examine_roles ext ty rs (sc, roles))"

text \<open>The second loop, over \<^verbatim>\<open>roleRules.m_rules\<close>, building \<^verbatim>\<open>roleClause\<close>.\<close>

fun role_clauses :: "externals \<Rightarrow> CombinationType \<Rightarrow> rule list \<Rightarrow> string \<Rightarrow> string" where
  "role_clauses ext ty [] roleClause = roleClause"
| "role_clauses ext ty (r # rs) roleClause =
     (let rolequery = Rule_GetWhereClause ext r (MediaTypeMusic ext) in
      if rolequery \<noteq> [] then
        (if ty = CombinationAnd then
           (if roleClause = [] then role_clauses ext ty rs rolequery
            else
              (let songRoleX = new_ExistsSubQuery ''song_artist AS sa1''
                     ''sa1.idArtist = song_artist.idArtist AND sa1.idSong = song_artist.idSong'';
                   songRoleX = AppendJoin ext songRoleX ''JOIN role as r1 ON sa1.idRole = r1.idRole'';
                   rolequery = Replace ext rolequery ''role.'' ''r1.'';
                   songRoleX = AppendWhere ext songRoleX rolequery;
                   currentRule = BuildSQL ext songRoleX
               in role_clauses ext ty rs (CombineClause ty roleClause currentRule)))
         else
           role_clauses ext ty rs
             ((if roleClause \<noteq> [] then roleClause @ '' OR '' else roleClause) @ rolequery))
      else role_clauses ext ty rs roleClause)"

definition GetRolesWhereClause ::
  "externals \<Rightarrow> combination \<Rightarrow> bool \<Rightarrow> error + string \<times> role_flags" where
  "GetRolesWhereClause ext c bRoleRules0 =
     (case examine_roles ext (m_type c) (m_rules c)
             (\<lparr>bWildRoleRule = False, bAlbumartistRule = False, bArtistRule = False,
               bNegAlbumartistRule = False, bNegArtistRule = False, roleRules = []\<rparr>,
              bRoleRules0) of
        Inl e \<Rightarrow> Inl e
      | Inr (sc, roles) \<Rightarrow>
          (let rr = (if bWildRoleRule sc then [] else roleRules sc);
               albumArtists =
                 (if bWildRoleRule sc then True
                  else \<not> ((bNegAlbumartistRule sc \<and> bAlbumartistRule sc)
                          \<or> (\<not> bNegArtistRule sc \<and> bArtistRule sc)));
               songArtists =
                 (if bWildRoleRule sc then True
                  else \<not> ((bNegArtistRule sc \<and> bArtistRule sc)
                          \<or> (\<not> bNegAlbumartistRule sc \<and> bAlbumartistRule sc)));
               albumArtists =
                 (if \<not> bWildRoleRule sc \<and> \<not> albumArtists \<and> \<not> songArtists then True
                  else albumArtists)
           in if \<not> bWildRoleRule sc \<and> rr = [] then
                Inr (''song_artist.idRole = 1'',
                     \<lparr>bAlbumArtists = albumArtists, bSongArtists = songArtists,
                      bJoinRole = False, bRoleRules = False\<rparr>)
              else
                (let roleClause = role_clauses ext (m_type c) rr [] in
                 Inr (roleClause,
                      \<lparr>bAlbumArtists =
                         (if roleClause \<noteq> [] \<and> songArtists then False else albumArtists),
                       bSongArtists = songArtists, bJoinRole = True, bRoleRules = roles\<rparr>))))"

subsection \<open>The combined where clauses of artists, albums and songs\<close>

text \<open>
  The strings (and one flag) that the loops over \<^verbatim>\<open>m_rules\<close> of
  \<^verbatim>\<open>GetArtistsWhereClause\<close>, \<^verbatim>\<open>GetAlbumsWhereClause\<close> and
  \<^verbatim>\<open>GetSongsWhereClause\<close> build; each loop uses the ones its function declares.
\<close>

record subclauses =
  songSubclause :: string
  albumSubclause :: string
  albumSourceclause :: string
  artistSubclause :: string
  albumartistField :: string
  artistField :: string
  bSongArtistNeedSong :: bool

definition no_subclauses :: subclauses where
  "no_subclauses =
     \<lparr>songSubclause = [], albumSubclause = [], albumSourceclause = [], artistSubclause = [],
      albumartistField = [], artistField = [], bSongArtistNeedSong = False\<rparr>"

definition path_subquery :: "externals \<Rightarrow> string \<Rightarrow> string" where
  "path_subquery ext pathquery =
     BuildSQL ext (AppendWhere ext (new_ExistsSubQuery ''path'' ''path.idPath = song.idPath'')
       pathquery)"

text \<open>The role clause enters the \<^verbatim>\<open>song_artist\<close> subquery in the same way in all three.\<close>

definition append_role_clause ::
  "externals \<Rightarrow> ExistsSubQuery \<Rightarrow> string \<Rightarrow> role_flags \<Rightarrow> ExistsSubQuery" where
  "append_role_clause ext songArtistSub roleClause fl =
     (if roleClause \<noteq> [] then
        (if bJoinRole fl then
           AppendWhere ext
             (AppendJoin ext songArtistSub ''JOIN role ON song_artist.idRole = role.idRole'')
             (''('' @ roleClause @ '')'')
         else AppendWhere ext songArtistSub roleClause)
      else songArtistSub)"

fun artists_rules :: "externals \<Rightarrow> CombinationType \<Rightarrow> rule list \<Rightarrow> subclauses \<Rightarrow> subclauses" where
  "artists_rules ext ty [] s = s"
| "artists_rules ext ty (r # rs) s =
     (if m_field r = FieldPath then
        (let pathquery = Rule_GetWhereClause ext r (MediaTypeMusic ext) in
         if pathquery \<noteq> [] then
           artists_rules ext ty rs
             (s\<lparr>songSubclause := CombineClause ty (songSubclause s) (path_subquery ext pathquery),
                bSongArtistNeedSong := True\<rparr>)
         else artists_rules ext ty rs s)
      else if m_field r = FieldSource then
        (let query = Replace ext (Rule_GetWhereClause ext r ''albums'') ''albumview'' ''album''
         in artists_rules ext ty rs
              (s\<lparr>albumSourceclause := CombineClause ty (albumSourceclause s) query,
                 bSongArtistNeedSong := True\<rparr>))
      else if IsFieldNative ext (m_field r) (MediaTypeArtist ext) ''song'' then
        (let songquery = Replace ext (Rule_GetWhereClause ext r ''songs'') ''songview'' ''song''
         in artists_rules ext ty rs
              (s\<lparr>songSubclause := CombineClause ty (songSubclause s) songquery,
                 bSongArtistNeedSong :=
                   (if m_field r \<noteq> FieldGenre then True else bSongArtistNeedSong s)\<rparr>))
      else if IsFieldNative ext (m_field r) (MediaTypeArtist ext) ''album'' then
        (let albumquery = Replace ext (Rule_GetWhereClause ext r ''albums'') ''albumview'' ''album''
         in artists_rules ext ty rs
              (s\<lparr>albumSubclause := CombineClause ty (albumSubclause s) albumquery,
                 bSongArtistNeedSong := True\<rparr>))
      else artists_rules ext ty rs s)"

definition GetArtistsWhereClause :: "externals \<Rightarrow> combination \<Rightarrow> error + string" where
  "GetArtistsWhereClause ext c =
     (case GetRolesWhereClause ext c False of
        Inl e \<Rightarrow> Inl e
      | Inr (roleClause, fl) \<Rightarrow>
          (let ty = m_type c;
               s = artists_rules ext ty (m_rules c) no_subclauses;
               songSub0 = songSubclause s;
               albumSub0 = albumSubclause s;
               albumSource = albumSourceclause s;
               bAlbumArtistNeedSong = (songSub0 \<noteq> [] \<or> (bJoinRole fl \<and> \<not> bSongArtists fl));
               songArtistSub =
                 append_role_clause ext
                   (new_ExistsSubQuery ''song_artist'' ''song_artist.idArtist = artistview.idArtist'')
                   roleClause fl;
               (songArtistSub, songSub1, album_artistClause) =
                 (if bAlbumArtistNeedSong then
                    (let (songArtistSub, songSub1) =
                           (if bRoleRules fl \<and> bAlbumArtists fl \<and> \<not> bSongArtists fl then
                              (let songArtistSub =
                                     AppendWhere ext songArtistSub ''song_artist.idSong = song.idSong'';
                                   strSQL = BuildSQL ext songArtistSub
                               in (songArtistSub,
                                   if strSQL \<noteq> [] then CombineClause ty songSub0 strSQL
                                   else songSub0))
                            else (songArtistSub, songSub0));
                         songAASub =
                           AppendWhere ext
                             (new_ExistsSubQuery ''song'' ''song.idAlbum = album_artist.idAlbum'')
                             (''('' @ songSub1 @ '')'')
                     in (songArtistSub, songSub1, BuildSQL ext songAASub))
                  else (songArtistSub, songSub0, []));
               album_artistClause =
                 (if albumSub0 \<noteq> [] then
                    (let strSQL = CombineClause ty albumSub0 albumSource;
                         strSQL = (if album_artistClause \<noteq> []
                                   then CombineClause ty strSQL album_artistClause else strSQL)
                     in BuildSQL ext
                          (AppendWhere ext
                             (new_ExistsSubQuery ''album'' ''album.idAlbum = album_artist.idAlbum'')
                             (''('' @ strSQL @ '')'')))
                  else if albumSource \<noteq> [] then
                    CombineClause ty
                      (Replace ext albumSource ''album.idAlbum'' ''album_artist.idAlbum'')
                      album_artistClause
                  else album_artistClause);
               albumArtistSub =
                 new_ExistsSubQuery ''album_artist'' ''album_artist.idArtist = artistview.idArtist'';
               albumArtistSub =
                 (if album_artistClause \<noteq> []
                  then AppendWhere ext albumArtistSub (''('' @ album_artistClause @ '')'')
                  else albumArtistSub);
               song_artistClause =
                 (if albumSub0 \<noteq> [] then
                    BuildSQL ext
                      (AppendWhere ext
                         (new_ExistsSubQuery ''album'' ''album.idAlbum = song.idAlbum'')
                         (''('' @ CombineClause ty albumSub0 albumSource @ '')''))
                  else if albumSource \<noteq> [] then
                    CombineClause ty (Replace ext albumSource ''album.idAlbum'' ''song.idAlbum'') []
                  else []);
               song_artistClause =
                 (if bSongArtistNeedSong s then
                    (let strSQL = (if songSub1 \<noteq> []
                                   then CombineClause ty songSub1 song_artistClause
                                   else song_artistClause)
                     in BuildSQL ext
                          (AppendWhere ext
                             (new_ExistsSubQuery ''song'' ''song.idSong = song_artist.idSong'')
                             (''('' @ strSQL @ '')'')))
                  else if songSub1 \<noteq> [] then
                    Replace ext songSub1 ''song.idSong'' ''song_artist.idSong''
                  else song_artistClause);
               songArtistSub =
                 (if song_artistClause \<noteq> []
                  then AppendWhere ext songArtistSub (''('' @ song_artistClause @ '')'')
                  else songArtistSub);
               rule = (if bAlbumArtists fl then BuildSQL ext albumArtistSub else []);
               rule =
                 (if bSongArtists fl then
                    (let strSQL = BuildSQL ext songArtistSub;
                         rule =
                           (if strSQL \<noteq> [] \<and> rule \<noteq> [] then
                              (if \<not> bJoinRole fl \<or> ty \<noteq> CombinationAnd then rule @ '' OR ''
                               else rule @ '' AND '')
                            else rule)
                     in rule @ strSQL)
                  else rule)
           in Inr rule))"

text \<open>
  The loop of \<^verbatim>\<open>GetAlbumsWhereClause\<close>; the rule is asked for its clause with the
  type string \<^verbatim>\<open>"artist"\<close>, as the source has it.
\<close>

fun albums_rules :: "externals \<Rightarrow> CombinationType \<Rightarrow> rule list \<Rightarrow> subclauses \<Rightarrow> subclauses" where
  "albums_rules ext ty [] s = s"
| "albums_rules ext ty (r # rs) s =
     (if m_field r = FieldPath then
        (let pathquery = Rule_GetWhereClause ext r (MediaTypeMusic ext) in
         if pathquery \<noteq> [] then
           albums_rules ext ty rs
             (s\<lparr>songSubclause := CombineClause ty (songSubclause s) (path_subquery ext pathquery)\<rparr>)
         else albums_rules ext ty rs s)
      else if IsFieldNative ext (m_field r) (MediaTypeAlbum ext) ''artist'' then
        (let artistquery = Replace ext (Rule_GetWhereClause ext r ''artist'') ''artistview'' ''artist''
         in if m_field r = FieldArtist then
              albums_rules ext ty rs (s\<lparr>artistField := CombineClause ty (artistField s) artistquery\<rparr>)
            else if m_field r = FieldAlbumArtist then
              albums_rules ext ty rs
                (s\<lparr>albumartistField := CombineClause ty (albumartistField s) artistquery\<rparr>)
            else
              albums_rules ext ty rs
                (s\<lparr>artistSubclause := CombineClause ty (artistSubclause s) artistquery\<rparr>))
      else if IsFieldNative ext (m_field r) (MediaTypeAlbum ext) ''song'' then
        (let songquery = Replace ext (Rule_GetWhereClause ext r ''songs'') ''songview'' ''song''
         in albums_rules ext ty rs
              (s\<lparr>songSubclause := CombineClause ty (songSubclause s) songquery\<rparr>))
      else albums_rules ext ty rs s)"

text \<open>
  The artist clauses of the two routes, built the same way in
  \<^verbatim>\<open>GetAlbumsWhereClause\<close> and \<^verbatim>\<open>GetSongsWhereClause\<close>: the pair
  (\<^verbatim>\<open>artistClauseAlbum\<close>, \<^verbatim>\<open>artistClauseSong\<close>).
\<close>

definition artist_clauses :: "CombinationType \<Rightarrow> subclauses \<Rightarrow> string \<times> string" where
  "artist_clauses ty s =
     (if albumartistField s \<noteq> [] \<and> artistField s \<noteq> [] then
        (CombineClause ty (artistSubclause s) (albumartistField s),
         CombineClause ty (artistSubclause s) (artistField s))
      else
        (let artistSub = CombineClause ty (artistSubclause s) (albumartistField s);
             artistSub = CombineClause ty artistSub (artistField s)
         in (artistSub, artistSub)))"

text \<open>
  The \<^verbatim>\<open>song_artist\<close> subquery object before the artist clause is appended, again
  the same in both functions but for the correlation parameter.
\<close>

definition song_artist_subquery ::
  "externals \<Rightarrow> string \<Rightarrow> bool \<Rightarrow> subclauses \<Rightarrow> string \<Rightarrow> role_flags \<Rightarrow> ExistsSubQuery" where
  "song_artist_subquery ext correlation bAlbumartistAndRole s roleClause fl =
     (let songArtistSub = new_ExistsSubQuery ''song_artist'' correlation;
          songArtistSub =
            (if bAlbumartistAndRole then
               AppendWhere ext songArtistSub ''song_artist.idArtist = album_artist.idArtist''
             else if artistSubclause s \<noteq> [] \<or> albumartistField s \<noteq> [] \<or> artistField s \<noteq> [] then
               AppendJoin ext songArtistSub ''JOIN artist ON artist.idArtist = song_artist.idArtist''
             else songArtistSub)
      in append_role_clause ext songArtistSub roleClause fl)"

definition GetAlbumsWhereClause :: "externals \<Rightarrow> combination \<Rightarrow> error + string" where
  "GetAlbumsWhereClause ext c =
     (case GetRolesWhereClause ext c False of
        Inl e \<Rightarrow> Inl e
      | Inr (roleClause, fl) \<Rightarrow>
          (let ty = m_type c;
               s = albums_rules ext ty (m_rules c) no_subclauses;
               songSub0 = songSubclause s;
               bAlbumartistAndRole =
                 (bRoleRules fl
                  \<and> (albumartistField s \<noteq> [] \<or> (bAlbumArtists fl \<and> \<not> bSongArtists fl)));
               songSub = new_ExistsSubQuery ''song'' ''song.idAlbum = albumview.idAlbum'';
               albumArtistSub =
                 AppendJoin ext
                   (new_ExistsSubQuery ''album_artist'' ''album_artist.idAlbum = albumview.idAlbum'')
                   ''JOIN artist ON artist.idArtist = album_artist.idArtist'';
               songArtistSub =
                 song_artist_subquery ext ''song_artist.idSong = song.idSong''
                   bAlbumartistAndRole s roleClause fl;
               (artistClauseAlbum, artistClauseSong) = artist_clauses ty s;
               songartistSubclause =
                 (if artistClauseSong \<noteq> [] \<or> bRoleRules fl then
                    BuildSQL ext
                      (if artistClauseSong \<noteq> [] \<and> \<not> bAlbumartistAndRole
                       then AppendWhere ext songArtistSub (''('' @ artistClauseSong @ '')'')
                       else songArtistSub)
                  else []);
               songSub = (if songSub0 \<noteq> [] then AppendWhere ext songSub (''('' @ songSub0 @ '')'')
                          else songSub);
               songSubSQLNoArtist = (if songSub0 \<noteq> [] then BuildSQL ext songSub else []);
               songSubSQL = CombineClause ty songSub0 songartistSubclause;
               songSubSQL =
                 (if songSubSQL \<noteq> [] then
                    BuildSQL ext (AppendWhere ext (songSub\<lparr>where := []\<rparr>) (''('' @ songSubSQL @ '')''))
                  else songSubSQL);
               albumArtistSub =
                 (if artistClauseAlbum \<noteq> []
                  then AppendWhere ext albumArtistSub (''('' @ artistClauseAlbum @ '')'')
                  else albumArtistSub);
               albumArtistSub =
                 (if bAlbumartistAndRole then AppendWhere ext albumArtistSub songSubSQL
                  else albumArtistSub);
               albumartistSubclause = BuildSQL ext albumArtistSub;
               albumartistSubclause =
                 (if bRoleRules fl \<and> \<not> bAlbumArtists fl \<and> albumartistField s = [] then []
                  else albumartistSubclause);
               rule =
                 (if albumartistField s \<noteq> [] \<or> (bAlbumArtists fl \<and> \<not> bSongArtists fl) then
                    (if bRoleRules fl then albumartistSubclause
                     else if artistField s \<noteq> [] \<or> \<not> bAlbumArtists fl then
                       CombineClause ty albumartistSubclause songSubSQL
                     else CombineClause ty albumartistSubclause songSubSQLNoArtist)
                  else if songartistSubclause \<noteq> [] then
                    (if ty \<noteq> CombinationAnd then CombineClause ty albumartistSubclause songSubSQL
                     else
                       (let rule = CombineClause ty albumartistSubclause songSubSQLNoArtist;
                            rule = (if rule \<noteq> [] then rule @ '' OR '' else rule)
                        in rule @ songSubSQL))
                  else if songSubSQL \<noteq> [] then songSubSQL
                  else [])
           in Inr rule))"

fun songs_rules :: "externals \<Rightarrow> CombinationType \<Rightarrow> rule list \<Rightarrow> subclauses \<Rightarrow> subclauses" where
  "songs_rules ext ty [] s = s"
| "songs_rules ext ty (r # rs) s =
     (if IsFieldNative ext (m_field r) (MediaTypeAlbum ext) ''artist'' then
        (let query = Replace ext (Rule_GetWhereClause ext r ''artist'') ''artistview'' ''artist''
         in if m_field r = FieldArtist then
              songs_rules ext ty rs (s\<lparr>artistField := CombineClause ty (artistField s) query\<rparr>)
            else if m_field r = FieldAlbumArtist then
              songs_rules ext ty rs
                (s\<lparr>albumartistField := CombineClause ty (albumartistField s) query\<rparr>)
            else
              songs_rules ext ty rs
                (s\<lparr>artistSubclause := CombineClause ty (artistSubclause s) query\<rparr>))
      else if IsFieldNative ext (m_field r) (MediaTypeArtist ext) ''album'' then
        (let query = Replace ext (Rule_GetWhereClause ext r ''albums'') ''albumview'' ''album''
         in songs_rules ext ty rs
              (s\<lparr>albumSubclause := CombineClause ty (albumSubclause s) query\<rparr>))
      else if m_field r = FieldSource then
        (let query = Replace ext (Rule_GetWhereClause ext r ''albums'') ''albumview'' ''album''
         in songs_rules ext ty rs
              (s\<lparr>albumSourceclause := CombineClause ty (albumSourceclause s) query\<rparr>))
      else songs_rules ext ty rs s)"

definition GetSongsWhereClause :: "externals \<Rightarrow> combination \<Rightarrow> error + string" where
  "GetSongsWhereClause ext c =
     (case GetRolesWhereClause ext c False of
        Inl e \<Rightarrow> Inl e
      | Inr (roleClause, fl) \<Rightarrow>
          (let ty = m_type c;
               s = songs_rules ext ty (m_rules c) no_subclauses;
               bAlbumartistOnly =
                 (albumartistField s \<noteq> [] \<or> (bAlbumArtists fl \<and> \<not> bSongArtists fl));
               bAlbumartistAndRole = (bRoleRules fl \<and> bAlbumartistOnly);
               albumSubSQL =
                 (if albumSubclause s \<noteq> [] then
                    (let albumSub0 =
                           (if albumSourceclause s \<noteq> []
                            then CombineClause ty (albumSubclause s) (albumSourceclause s)
                            else albumSubclause s)
                     in BuildSQL ext
                          (AppendWhere ext
                             (new_ExistsSubQuery ''album'' ''album.idAlbum = songview.idAlbum'')
                             (''('' @ albumSub0 @ '')'')))
                  else if albumSourceclause s \<noteq> [] then
                    Replace ext (albumSourceclause s) ''album.idAlbum'' ''songview.idAlbum''
                  else []);
               albumArtistSub =
                 AppendJoin ext
                   (new_ExistsSubQuery ''album_artist'' ''album_artist.idAlbum = songview.idAlbum'')
                   ''JOIN artist ON artist.idArtist = album_artist.idArtist'';
               songArtistSub =
                 song_artist_subquery ext ''song_artist.idSong = songview.idSong''
                   bAlbumartistAndRole s roleClause fl;
               (artistClauseAlbum, artistClauseSong) = artist_clauses ty s;
               songartistSubclause =
                 (if artistClauseSong \<noteq> [] \<or> bRoleRules fl then
                    BuildSQL ext
                      (if artistClauseSong \<noteq> [] \<and> \<not> bAlbumartistAndRole
                       then AppendWhere ext songArtistSub (''('' @ artistClauseSong @ '')'')
                       else songArtistSub)
                  else []);
               albumArtistSub =
                 (if artistClauseAlbum \<noteq> []
                  then AppendWhere ext albumArtistSub (''('' @ artistClauseAlbum @ '')'')
                  else albumArtistSub);
               albumArtistSub =
                 (if bAlbumartistAndRole then AppendWhere ext albumArtistSub songartistSubclause
                  else albumArtistSub);
               albumartistSubclause = BuildSQL ext albumArtistSub;
               albumartistSubclause =
                 (if bRoleRules fl \<and> \<not> bAlbumArtists fl \<and> albumartistField s = [] then []
                  else albumartistSubclause);
               rule =
                 (if bAlbumartistOnly then albumartistSubclause
                  else if bRoleRules fl then songartistSubclause
                  else if artistField s \<noteq> [] \<and> albumartistField s \<noteq> [] then
                    CombineClause ty albumartistSubclause songartistSubclause
                  else if artistClauseSong \<noteq> [] then
                    albumartistSubclause @ '' OR '' @ songartistSubclause
                  else []);
               rule = (if albumSubSQL \<noteq> [] then CombineClause ty albumSubSQL rule else rule)
           in Inr rule))"

definition GetCombinedWhereClause :: "externals \<Rightarrow> combination \<Rightarrow> string \<Rightarrow> error + string" where
  "GetCombinedWhereClause ext c strType =
     (if strType = ''artists'' then GetArtistsWhereClause ext c
      else if strType = ''albums'' then GetAlbumsWhereClause ext c
      else if strType = ''songs'' then GetSongsWhereClause ext c
      else Inr [])"

subsection \<open>The claims about roles in the words of the specification\<close>

text \<open>
  A role rule is an albumartist rule, an artist rule or a wildcard rule after the first
  of the three comparisons that succeeds on its first value, in the order of the
  source; any other role rule is gathered for the role table.
\<close>

definition albumartist_rule :: "externals \<Rightarrow> rule \<Rightarrow> bool" where
  "albumartist_rule ext r =
     (m_field r = FieldRole \<and> m_parameter r \<noteq> []
      \<and> EqualsNoCase ext (hd (m_parameter r)) ''albumartist'')"

definition artist_rule :: "externals \<Rightarrow> rule \<Rightarrow> bool" where
  "artist_rule ext r =
     (m_field r = FieldRole \<and> m_parameter r \<noteq> []
      \<and> \<not> EqualsNoCase ext (hd (m_parameter r)) ''albumartist''
      \<and> EqualsNoCase ext (hd (m_parameter r)) ''artist'')"

definition wild_rule :: "externals \<Rightarrow> rule \<Rightarrow> bool" where
  "wild_rule ext r =
     (m_field r = FieldRole \<and> m_parameter r \<noteq> []
      \<and> \<not> EqualsNoCase ext (hd (m_parameter r)) ''albumartist''
      \<and> \<not> EqualsNoCase ext (hd (m_parameter r)) ''artist''
      \<and> EqualsNoCase ext (hd (m_parameter r)) ''%'')"

definition other_role_rule :: "externals \<Rightarrow> rule \<Rightarrow> bool" where
  "other_role_rule ext r =
     (m_field r = FieldRole \<and> m_parameter r \<noteq> []
      \<and> \<not> EqualsNoCase ext (hd (m_parameter r)) ''albumartist''
      \<and> \<not> EqualsNoCase ext (hd (m_parameter r)) ''artist''
      \<and> \<not> EqualsNoCase ext (hd (m_parameter r)) ''%'')"

text \<open>
  The last element of a list that satisfies a predicate: each albumartist rule
  overwrites the flags of the one before it, and so does each artist rule.
\<close>

fun last_matching :: "('a \<Rightarrow> bool) \<Rightarrow> 'a list \<Rightarrow> 'a option" where
  "last_matching P [] = None"
| "last_matching P (x # xs) =
     (case last_matching P xs of Some y \<Rightarrow> Some y | None \<Rightarrow> if P x then Some x else None)"

text \<open>The state of the first loop after a list of rules, in closed form.\<close>

definition scanned :: "externals \<Rightarrow> CombinationType \<Rightarrow> rule list \<Rightarrow> role_scan \<Rightarrow> role_scan" where
  "scanned ext ty rs sc =
     \<lparr>bWildRoleRule = (bWildRoleRule sc \<or> list_ex (wild_rule ext) rs),
      bAlbumartistRule =
        (case last_matching (albumartist_rule ext) rs of
           Some r \<Rightarrow> ty = CombinationAnd | None \<Rightarrow> bAlbumartistRule sc),
      bArtistRule =
        (case last_matching (artist_rule ext) rs of
           Some r \<Rightarrow> ty = CombinationAnd | None \<Rightarrow> bArtistRule sc),
      bNegAlbumartistRule =
        (case last_matching (albumartist_rule ext) rs of
           Some r \<Rightarrow> negated_operator r | None \<Rightarrow> bNegAlbumartistRule sc),
      bNegArtistRule =
        (case last_matching (artist_rule ext) rs of
           Some r \<Rightarrow> negated_operator r | None \<Rightarrow> bNegArtistRule sc),
      roleRules = roleRules sc @ filter (other_role_rule ext) rs\<rparr>"

definition role_rules_have_values :: "rule list \<Rightarrow> bool" where
  "role_rules_have_values rs = list_all (\<lambda>r. m_field r = FieldRole \<longrightarrow> m_parameter r \<noteq> []) rs"

text \<open>
  The conditions that switch a route off under AND, read on the last albumartist rule
  and the last artist rule: a negated albumartist rule or an affirmative artist rule
  for the album-artist route, and the mirror image for the song-artist route.
\<close>

definition album_route_off :: "externals \<Rightarrow> CombinationType \<Rightarrow> rule list \<Rightarrow> bool" where
  "album_route_off ext ty rs =
     (ty = CombinationAnd
      \<and> ((case last_matching (albumartist_rule ext) rs of
             Some r \<Rightarrow> negated_operator r | None \<Rightarrow> False)
          \<or> (case last_matching (artist_rule ext) rs of
               Some r \<Rightarrow> \<not> negated_operator r | None \<Rightarrow> False)))"

definition song_route_off :: "externals \<Rightarrow> CombinationType \<Rightarrow> rule list \<Rightarrow> bool" where
  "song_route_off ext ty rs =
     (ty = CombinationAnd
      \<and> ((case last_matching (artist_rule ext) rs of
             Some r \<Rightarrow> negated_operator r | None \<Rightarrow> False)
          \<or> (case last_matching (albumartist_rule ext) rs of
               Some r \<Rightarrow> \<not> negated_operator r | None \<Rightarrow> False)))"

text \<open>
  The condition that switches the song-artist route off, as the specification states it:
  some rule of the group is a negated artist rule or a non-negated albumartist rule.
\<close>

definition stated_song_route_off :: "externals \<Rightarrow> CombinationType \<Rightarrow> rule list \<Rightarrow> bool" where
  "stated_song_route_off ext ty rs =
     (ty = CombinationAnd
      \<and> (list_ex (\<lambda>r. artist_rule ext r \<and> negated_operator r) rs
          \<or> list_ex (\<lambda>r. albumartist_rule ext r \<and> \<not> negated_operator r) rs))"

text \<open>
  The role clause of the rules that name a role other than albumartist, artist and the
  wildcard: what the second loop builds from them. When it is not empty and the
  song-artist route is enabled, the function switches the album-artist route off before
  it returns.
\<close>

definition named_role_clause :: "externals \<Rightarrow> CombinationType \<Rightarrow> rule list \<Rightarrow> string" where
  "named_role_clause ext ty rs = role_clauses ext ty (filter (other_role_rule ext) rs) []"

text \<open>Three rules for the examples: a named role, a negated albumartist role, a genre.\<close>

definition role_Composer :: rule where
  "role_Composer =
     \<lparr>m_field = FieldRole, m_operator = OPERATOR_EQUALS, m_parameter = [''Composer'']\<rparr>"

definition role_not_AlbumArtist :: rule where
  "role_not_AlbumArtist =
     \<lparr>m_field = FieldRole, m_operator = OPERATOR_DOES_NOT_EQUAL, m_parameter = [''AlbumArtist'']\<rparr>"

definition genre_contains_Rock :: rule where
  "genre_contains_Rock =
     \<lparr>m_field = FieldGenre, m_operator = OPERATOR_CONTAINS, m_parameter = [''Rock'']\<rparr>"






subsection \<open>\<^verbatim>\<open>CSmartPlaylistRuleCombination::GetWhereClause\<close>: the recursive compile\<close>

text \<open>
  \<^verbatim>\<open>CSmartPlaylist::Load\<close> reads a playlist file; the files are the store \<open>playlist_files\<close>, and
  a path the store does not hold cannot be loaded. The set \<open>refs\<close> of the compile is the
  source's \<open>referencedPlaylists\<close>, a \<^verbatim>\<open>std::set\<close> of file paths passed by reference: every call
  returns it updated. A rule on \<open>FieldPlaylist\<close> reads \<^verbatim>\<open>m_parameter.at(0)\<close>, which throws
  \<^verbatim>\<open>std::out_of_range\<close> on a rule without a value.

  The two loops of the source, over the sub-combinations and then over the rules, are one
  recursive function on the two lists that remain; \<open>first\<close> is true until a sub-combination
  has been appended, \<open>rule\<close> is the text built so far and \<open>joinedRules\<close> collects the rules
  that \<open>IsFieldRuleSimple\<close> rejects, compiled together at the end.
\<close>

definition Load :: "externals \<Rightarrow> string \<Rightarrow> playlist option" where
  "Load ext playlistFile = map_of (playlist_files ext) playlistFile"

text \<open>
  The test on the nested playlist's type before it is compiled (\<open>playlistType\<close> is what
  \<^verbatim>\<open>GetType()\<close> returns on the playlist after \<^verbatim>\<open>Load\<close>), the separator between two sub-combinations, and the text a playlist
  rule adds for a compiled nested playlist: \<^verbatim>\<open>StringUtils::Format("NOT (%s)", ...)\<close> for the
  operator does-not-equal.
\<close>

definition nested_type_accepted :: "string \<Rightarrow> string \<Rightarrow> bool" where
  "nested_type_accepted playlistType strType =
     (playlistType = strType
      \<or> (playlistType = ''mixed'' \<and> (strType = ''songs'' \<or> strType = ''musicvideos''))
      \<or> playlistType = [])"

definition separator :: "CombinationType \<Rightarrow> string" where
  "separator ty = (if ty = CombinationAnd then '' AND '' else '' OR '')"

definition negate_playlist :: "rule \<Rightarrow> string \<Rightarrow> string" where
  "negate_playlist r playlistQuery =
     (if m_operator r = OPERATOR_DOES_NOT_EQUAL then ''NOT ('' @ c_str playlistQuery @ '')''
      else playlistQuery)"

function (sequential) GetWhereClause_loop ::
  "externals \<Rightarrow> string \<Rightarrow> CombinationType \<Rightarrow> combination list \<Rightarrow> rule list \<Rightarrow> bool \<Rightarrow> string
     \<Rightarrow> rule list \<Rightarrow> string set \<Rightarrow> error + string \<times> string set" where
  "GetWhereClause_loop ext strType ty (combo # combos) rules first rule joinedRules refs =
     (case GetWhereClause_loop ext strType (m_type combo) (m_combinations combo) (m_rules combo)
             True [] [] refs of
        Inl e \<Rightarrow> Inl e
      | Inr (sub, refs1) \<Rightarrow>
          GetWhereClause_loop ext strType ty combos rules False
            ((if first then rule else rule @ separator ty) @ ''('' @ sub @ '')'')
            joinedRules refs1)"
| "GetWhereClause_loop ext strType ty [] (r # rules) first rule joinedRules refs =
     (if m_field r = FieldVirtualFolder then
        GetWhereClause_loop ext strType ty [] rules first rule joinedRules refs
      else if m_field r = FieldPlaylist then
        (case m_parameter r of
           [] \<Rightarrow> Inl out_of_range
         | name # _ \<Rightarrow>
             (let playlistFile = GetPlaylistByName ext name strType in
              if playlistFile \<noteq> [] \<and> playlistFile \<notin> refs then
                (case Load ext playlistFile of
                   None \<Rightarrow>
                     GetWhereClause_loop ext strType ty [] rules first (CombineClause ty rule [])
                       joinedRules (insert playlistFile refs)
                 | Some playlist \<Rightarrow>
                     if nested_type_accepted (m_playlistType playlist) strType then
                       (case GetWhereClause_loop ext strType
                               (m_type (m_ruleCombination playlist))
                               (m_combinations (m_ruleCombination playlist))
                               (m_rules (m_ruleCombination playlist))
                               True [] [] (insert playlistFile refs) of
                          Inl e \<Rightarrow> Inl e
                        | Inr (playlistQuery, refs2) \<Rightarrow>
                            GetWhereClause_loop ext strType ty [] rules first
                              (CombineClause ty rule (negate_playlist r playlistQuery))
                              joinedRules refs2)
                     else
                       GetWhereClause_loop ext strType ty [] rules first
                         (CombineClause ty rule
                            (if m_playlistType playlist = strType then negate_playlist r []
                             else []))
                         joinedRules (insert playlistFile refs))
              else
                GetWhereClause_loop ext strType ty [] rules first (CombineClause ty rule [])
                  joinedRules refs))
      else if \<not> IsFieldRuleSimple ext (m_field r) (CMediaTypes_FromString ext strType) then
        GetWhereClause_loop ext strType ty [] rules first (CombineClause ty rule [])
          (joinedRules @ [r]) refs
      else
        GetWhereClause_loop ext strType ty [] rules first
          (CombineClause ty rule (Rule_GetWhereClause ext r strType)) joinedRules refs)"
| "GetWhereClause_loop ext strType ty [] [] first rule joinedRules refs =
     (if joinedRules \<noteq> [] then
        (case GetCombinedWhereClause ext (Combination ty [] joinedRules) strType of
           Inl e \<Rightarrow> Inl e
         | Inr whereclause \<Rightarrow> Inr (CombineClause ty rule whereclause, refs))
      else Inr (rule, refs))"
  by pat_completeness auto

text \<open>
  The recursion ends: a nested playlist is compiled only when its file is not yet in \<open>refs\<close>,
  the file is inserted before the nested compile, and no call removes a file from the set.
  So the number of files of the store outside \<open>refs\<close> decreases at every nested compile, and
  within one playlist the rule tree gets smaller.
\<close>

fun weight :: "combination \<Rightarrow> nat" where
  "weight (Combination ty combos rules) = Suc (sum_list (map weight combos) + length rules)"

lemma weight_sel:
  "sum_list (map weight (m_combinations c)) + length (m_rules c) < weight c"
  by (cases c) simp


definition grows :: "error + string \<times> string set \<Rightarrow> string set \<Rightarrow> bool" where
  "grows res refs = (case res of Inl e \<Rightarrow> True | Inr (q, refs') \<Rightarrow> refs \<subseteq> refs')"

lemma grows_mono: "grows res A \<Longrightarrow> B \<subseteq> A \<Longrightarrow> grows res B"
  by (auto simp: grows_def split: sum.splits)

lemma grows_Inl [simp]: "grows (Inl e) refs"
  by (simp add: grows_def)

lemma grows_Inr [simp]: "grows (Inr (q, refs')) refs = (refs \<subseteq> refs')"
  by (simp add: grows_def)

lemma GetWhereClause_loop_grows_dom:
  "GetWhereClause_loop_dom (ext, strType, ty, combos, rules, first, rule, joinedRules, refs) \<Longrightarrow>
   grows (GetWhereClause_loop ext strType ty combos rules first rule joinedRules refs) refs"
proof (induction ext strType ty combos rules first rule joinedRules refs
    rule: GetWhereClause_loop.pinduct)
  case (1 ext strType ty combo combos rules first rule joinedRules refs)
  show ?case
  proof (cases "GetWhereClause_loop ext strType (m_type combo) (m_combinations combo)
                  (m_rules combo) True [] [] refs")
    case (Inl e)
    then show ?thesis using "1.hyps" by (simp add: GetWhereClause_loop.psimps)
  next
    case (Inr b)
    obtain sub refs1 where b: "b = (sub, refs1)" by (cases b)
    from "1.IH"(1) Inr b have sub: "refs \<subseteq> refs1" by simp
    from "1.IH"(2) [OF Inr b [symmetric]]
    have "grows (GetWhereClause_loop ext strType ty combos rules False
            ((if first then rule else rule @ separator ty) @ ''('' @ sub @ '')'')
            joinedRules refs1) refs1" .
    from grows_mono [OF this sub] show ?thesis
      using "1.hyps" Inr b by (simp add: GetWhereClause_loop.psimps)
  qed
next
  case (2 ext strType ty r rules first rule joinedRules refs)
  note eq = GetWhereClause_loop.psimps(2) [OF "2.hyps"]
  show ?case
  proof (cases "m_field r = FieldVirtualFolder")
    case True
    with "2.IH"(1) show ?thesis by (simp add: eq)
  next
    case nvf: False
    show ?thesis
    proof (cases "m_field r = FieldPlaylist")
      case pl: True
      show ?thesis
      proof (cases "m_parameter r")
        case Nil
        with nvf pl show ?thesis by (simp add: eq)
      next
        case (Cons name ps)
        let ?f = "GetPlaylistByName ext name strType"
        show ?thesis
        proof (cases "?f \<noteq> [] \<and> ?f \<notin> refs")
          case ok: True
          show ?thesis
          proof (cases "Load ext ?f")
            case None
            from "2.IH"(2) [OF nvf pl Cons refl ok None]
            have "grows (GetWhereClause_loop ext strType ty [] rules first
                    (CombineClause ty rule []) joinedRules (insert ?f refs)) (insert ?f refs)" .
            from grows_mono [OF this] have "grows (GetWhereClause_loop ext strType ty [] rules first
                    (CombineClause ty rule []) joinedRules (insert ?f refs)) refs" by blast
            with nvf pl Cons ok None show ?thesis by (simp add: eq Let_def)
          next
            case (Some p)
            show ?thesis
            proof (cases "nested_type_accepted (m_playlistType p) strType")
              case acc: True
              let ?inner = "GetWhereClause_loop ext strType (m_type (m_ruleCombination p))
                  (m_combinations (m_ruleCombination p)) (m_rules (m_ruleCombination p))
                  True [] [] (insert ?f refs)"
              show ?thesis
              proof (cases ?inner)
                case (Inl e)
                with nvf pl Cons ok Some acc show ?thesis by (simp add: eq Let_def)
              next
                case (Inr b)
                obtain q refs2 where b: "b = (q, refs2)" by (cases b)
                from "2.IH"(3) [OF nvf pl Cons refl ok Some acc] Inr b
                have sub: "insert ?f refs \<subseteq> refs2" by simp
                from "2.IH"(4) [OF nvf pl Cons refl ok Some acc Inr b [symmetric]]
                have "grows (GetWhereClause_loop ext strType ty [] rules first
                        (CombineClause ty rule (negate_playlist r q)) joinedRules refs2) refs2" .
                from grows_mono [OF this] sub
                have "grows (GetWhereClause_loop ext strType ty [] rules first
                        (CombineClause ty rule (negate_playlist r q)) joinedRules refs2) refs"
                  by blast
                with nvf pl Cons ok Some acc Inr b show ?thesis by (simp add: eq Let_def)
              qed
            next
              case nacc: False
              from "2.IH"(5) [OF nvf pl Cons refl ok Some nacc]
              have "grows (GetWhereClause_loop ext strType ty [] rules first
                      (CombineClause ty rule
                         (if m_playlistType p = strType then negate_playlist r [] else []))
                      joinedRules (insert ?f refs)) (insert ?f refs)" .
              from grows_mono [OF this]
              have "grows (GetWhereClause_loop ext strType ty [] rules first
                      (CombineClause ty rule
                         (if m_playlistType p = strType then negate_playlist r [] else []))
                      joinedRules (insert ?f refs)) refs" by blast
              with nvf pl Cons ok Some nacc show ?thesis by (simp add: eq Let_def)
            qed
          qed
        next
          case nok: False
          from "2.IH"(6) [OF nvf pl Cons refl nok] nvf pl Cons nok
          show ?thesis by (auto simp: eq Let_def)
        qed
      qed
    next
      case npl: False
      show ?thesis
      proof (cases "IsFieldRuleSimple ext (m_field r) (CMediaTypes_FromString ext strType)")
        case True
        with "2.IH"(8) [OF nvf npl] nvf npl show ?thesis by (simp add: eq)
      next
        case False
        with "2.IH"(7) [OF nvf npl] nvf npl show ?thesis by (simp add: eq)
      qed
    qed
  qed
next
  case (3 ext strType ty first rule joinedRules refs)
  then show ?case
    by (simp add: GetWhereClause_loop.psimps split: sum.splits)
qed

definition unvisited :: "externals \<Rightarrow> string set \<Rightarrow> nat" where
  "unvisited ext refs = card (fst ` set (playlist_files ext) - refs)"

lemma unvisited_mono: "A \<subseteq> B \<Longrightarrow> unvisited ext B \<le> unvisited ext A"
  unfolding unvisited_def by (intro card_mono) auto

lemma unvisited_insert_le: "unvisited ext (insert f refs) \<le> unvisited ext refs"
  by (rule unvisited_mono) blast

lemma unvisited_insert:
  assumes "Load ext f = Some p" "f \<notin> refs"
  shows "unvisited ext (insert f refs) < unvisited ext refs"
proof -
  from assms(1) have "f \<in> fst ` set (playlist_files ext)"
    by (auto simp: Load_def dest: map_of_SomeD intro: rev_image_eqI)
  with assms(2) have "fst ` set (playlist_files ext) - insert f refs
      \<subset> fst ` set (playlist_files ext) - refs" by auto
  then show ?thesis unfolding unvisited_def by (intro psubset_card_mono) auto
qed

lemma GetWhereClause_loop_total: "All GetWhereClause_loop_dom"
  apply (rule "GetWhereClause_loop.termination" [of "measures
    [\<lambda>(ext, strType, ty, combos, rules, first, rule, joinedRules, refs). unvisited ext refs,
     \<lambda>(ext, strType, ty, combos, rules, first, rule, joinedRules, refs).
       sum_list (map weight combos) + length rules]"])
  subgoal by simp
  subgoal for ext strType ty combo combos rules first rule joinedRules refs
    using weight_sel [of combo] by simp
  subgoal premises p for ext strType ty combo combos rules first rule joinedRules refs b x y
  proof -
    from GetWhereClause_loop_grows_dom [OF p(3)] p(1,2) have "refs \<subseteq> y" by auto
    from unvisited_mono [OF this, of ext] show ?thesis
      using weight_sel [of combo] by auto
  qed
  subgoal by simp
  subgoal for ext strType ty r rules first rule joinedRules refs x21 x22 x
    using unvisited_insert_le [of ext x refs] by auto
  subgoal for ext strType ty r rules first rule joinedRules refs x21 x22 x x2
    using unvisited_insert [of ext x x2 refs] by simp
  subgoal premises p for ext strType ty r rules first rule joinedRules refs x21 x22 x x2 b xa y
  proof -
    from GetWhereClause_loop_grows_dom [OF p(10)] p(8,9) have "insert x refs \<subseteq> y" by auto
    then have "refs \<subseteq> y" by blast
    from unvisited_mono [OF this, of ext] show ?thesis by auto
  qed
  subgoal for ext strType ty r rules first rule joinedRules refs x21 x22 x x2
    using unvisited_insert_le [of ext x refs] by auto
  subgoal by simp
  subgoal by simp
  subgoal by simp
  done


termination GetWhereClause_loop
  by (rule GetWhereClause_loop_total)

lemma GetWhereClause_loop_grows:
  "grows (GetWhereClause_loop ext strType ty combos rules first rule joinedRules refs) refs"
  using GetWhereClause_loop_total by (intro GetWhereClause_loop_grows_dom) simp

text \<open>
  \<^verbatim>\<open>CSmartPlaylistRuleCombination::GetWhereClause\<close> on a combination, and
  \<^verbatim>\<open>CSmartPlaylist::GetWhereClause\<close>, which compiles the playlist's combination for the
  playlist's own type with the caller's set. \<open>SetType\<close> is the setter of the playlist's type.
\<close>

definition GetWhereClause ::
  "externals \<Rightarrow> combination \<Rightarrow> string \<Rightarrow> string set \<Rightarrow> error + string \<times> string set" where
  "GetWhereClause ext c strType refs =
     GetWhereClause_loop ext strType (m_type c) (m_combinations c) (m_rules c) True [] [] refs"

definition CSmartPlaylist_GetWhereClause ::
  "externals \<Rightarrow> playlist \<Rightarrow> string set \<Rightarrow> error + string \<times> string set" where
  "CSmartPlaylist_GetWhereClause ext playlist refs =
     GetWhereClause ext (m_ruleCombination playlist) (m_playlistType playlist) refs"

definition SetType :: "playlist \<Rightarrow> string \<Rightarrow> playlist" where
  "SetType playlist type = playlist\<lparr>m_playlistType := type\<rparr>"

definition playlist_rule :: "rule \<Rightarrow> string \<Rightarrow> bool" where
  "playlist_rule r name = (m_field r = FieldPlaylist \<and> m_parameter r \<noteq> [] \<and> hd (m_parameter r) = name)"

subsection \<open>Sample playlists\<close>

text \<open>
  A small store for the sample collaborators: \<open>P\<close> refers to itself, \<open>A\<close> and \<open>B\<close> refer to each
  other, \<open>S\<close>, \<open>M\<close> and \<open>V\<close> are plain playlists of type songs, mixed and movies, and \<open>O\<close> is a
  mixed playlist that refers to \<open>S\<close>.
\<close>

definition year_rule :: rule where
  "year_rule = \<lparr>m_field = FieldYear, m_operator = OPERATOR_GREATER_THAN, m_parameter = [''1990'']\<rparr>"

definition reference :: "SEARCH_OPERATOR \<Rightarrow> string \<Rightarrow> rule" where
  "reference oper name = \<lparr>m_field = FieldPlaylist, m_operator = oper, m_parameter = [name]\<rparr>"

definition playlist_P :: playlist where
  "playlist_P =
     \<lparr>m_playlistName = ''P'', m_playlistType = ''songs'',
      m_ruleCombination = Combination CombinationAnd [] [year_rule, reference OPERATOR_EQUALS ''P'']\<rparr>"

definition playlist_S :: playlist where
  "playlist_S =
     \<lparr>m_playlistName = ''S'', m_playlistType = ''songs'',
      m_ruleCombination = Combination CombinationAnd [] [year_rule]\<rparr>"

definition playlist_M :: playlist where
  "playlist_M =
     \<lparr>m_playlistName = ''M'', m_playlistType = ''mixed'',
      m_ruleCombination = Combination CombinationAnd [] [year_rule]\<rparr>"

definition playlist_A :: playlist where
  "playlist_A =
     \<lparr>m_playlistName = ''A'', m_playlistType = ''songs'',
      m_ruleCombination = Combination CombinationAnd [] [reference OPERATOR_EQUALS ''B'']\<rparr>"

definition playlist_B :: playlist where
  "playlist_B =
     \<lparr>m_playlistName = ''B'', m_playlistType = ''songs'',
      m_ruleCombination =
        Combination CombinationAnd [] [reference OPERATOR_EQUALS ''A'', year_rule]\<rparr>"

definition playlist_V :: playlist where
  "playlist_V =
     \<lparr>m_playlistName = ''V'', m_playlistType = ''movies'',
      m_ruleCombination = Combination CombinationAnd [] [year_rule]\<rparr>"

definition playlist_O :: playlist where
  "playlist_O =
     \<lparr>m_playlistName = ''O'', m_playlistType = ''mixed'',
      m_ruleCombination = Combination CombinationAnd [] [reference OPERATOR_EQUALS ''S'']\<rparr>"

definition sample_store :: "(string \<times> playlist) list" where
  "sample_store =
     [(''P.xsp'', playlist_P), (''S.xsp'', playlist_S), (''M.xsp'', playlist_M),
      (''V.xsp'', playlist_V), (''A.xsp'', playlist_A), (''B.xsp'', playlist_B)]"

section \<open>Verified properties\<close>

subsection \<open>Evaluation of the C library model\<close>

lemmas c_library_defs =
  strtol_def long_to_int_def c_str_def isspace_def isdigit_def digit_value_def
  LONG_MAX_def LONG_MIN_def INT_MAX_def format_int_def digits_of_nat.simps

subsection \<open>Video resolution\<close>

text \<open>
  C7, as the code has it. The numeric parameter falls into exactly one of five width
  bands, with the thresholds 2160, 1080, 720 and 540 (not 2161, 1081, 721, 541):
  at least 2160 gives [1921, INT_MAX], at least 1080 gives [1281, 1920], at least 720
  gives [961, 1280], at least 540 gives [721, 960], anything lower gives [0, 720];
  and the operator selects the bound check on that band.
\<close>

theorem GetVideoResolutionQuery_bands:
  fixes r :: rule and parameter :: string
  defines "iRes \<equiv> long_to_int (strtol parameter)"
  shows "(2160 \<le> iRes \<longrightarrow>
            GetVideoResolutionQuery r parameter = width_clause (m_operator r) 1921 INT_MAX)
       \<and> (1080 \<le> iRes \<and> iRes < 2160 \<longrightarrow>
            GetVideoResolutionQuery r parameter = width_clause (m_operator r) 1281 1920)
       \<and> (720 \<le> iRes \<and> iRes < 1080 \<longrightarrow>
            GetVideoResolutionQuery r parameter = width_clause (m_operator r) 961 1280)
       \<and> (540 \<le> iRes \<and> iRes < 720 \<longrightarrow>
            GetVideoResolutionQuery r parameter = width_clause (m_operator r) 721 960)
       \<and> (iRes < 540 \<longrightarrow>
            GetVideoResolutionQuery r parameter = width_clause (m_operator r) 0 720)"
  unfolding iRes_def
  by (cases "m_operator r")
     (simp_all add: GetVideoResolutionQuery_def resolution_bounds_def width_clause_def
        bound_check_def Let_def)

theorem GetVideoResolutionQuery_bands_witness:
  "1080 \<le> long_to_int (strtol ''1080'') \<and> long_to_int (strtol ''1080'') < 2160
   \<and> GetVideoResolutionQuery
        \<lparr>m_field = FieldVideoResolution, m_operator = OPERATOR_DOES_NOT_EQUAL,
           m_parameter = [''1080'']\<rparr> ''1080''
      = '' IN (SELECT DISTINCT idFile FROM streamdetails WHERE iVideoWidth < 1281 OR iVideoWidth > 1920)''"
  using GetVideoResolutionQuery_bands
    [of "''1080''" "\<lparr>m_field = FieldVideoResolution, m_operator = OPERATOR_DOES_NOT_EQUAL,
                       m_parameter = [''1080'']\<rparr>"]
  by (simp add: width_clause_def bound_check_def c_library_defs Let_def)

text \<open>
  C7 as stated fails at the parameter 1080: the stated thresholds put 1080 into the
  band [961, 1280], the code constrains the width to [1281, 1920].
\<close>

theorem stated_bands_counterexample:
  "long_to_int (strtol ''1080'') = 1080
   \<and> stated_resolution_bounds 1080 = (961, 1280)
   \<and> GetVideoResolutionQuery
        \<lparr>m_field = FieldVideoResolution, m_operator = OPERATOR_EQUALS,
           m_parameter = [''1080'']\<rparr> ''1080''
      = '' IN (SELECT DISTINCT idFile FROM streamdetails WHERE iVideoWidth >= 1281 AND iVideoWidth <= 1920)''"
  by (simp add: GetVideoResolutionQuery_def resolution_bounds_def stated_resolution_bounds_def
        c_library_defs Let_def)

text \<open>
  C8, as the code has it: equals 1080 constrains the width to [1281, 1920], equals
  2160 to [1921, 2147483647], and less-than 720 constrains the width to be below 961,
  the minimum of the band [961, 1280] that 720 falls into.
\<close>

theorem GetVideoResolutionQuery_examples:
  "GetVideoResolutionQuery
     \<lparr>m_field = FieldVideoResolution, m_operator = OPERATOR_EQUALS, m_parameter = [''1080'']\<rparr>
     ''1080''
   = '' IN (SELECT DISTINCT idFile FROM streamdetails WHERE iVideoWidth >= 1281 AND iVideoWidth <= 1920)''
   \<and> GetVideoResolutionQuery
     \<lparr>m_field = FieldVideoResolution, m_operator = OPERATOR_EQUALS, m_parameter = [''2160'']\<rparr>
     ''2160''
   = '' IN (SELECT DISTINCT idFile FROM streamdetails WHERE iVideoWidth >= 1921 AND iVideoWidth <= 2147483647)''
   \<and> GetVideoResolutionQuery
     \<lparr>m_field = FieldVideoResolution, m_operator = OPERATOR_LESS_THAN, m_parameter = [''720'']\<rparr>
     ''720''
   = '' IN (SELECT DISTINCT idFile FROM streamdetails WHERE iVideoWidth < 961)''"
  by (simp add: GetVideoResolutionQuery_def resolution_bounds_def c_library_defs Let_def)

text \<open>
  C8 as stated fails at less-than 720: the fragment is not the comparison with 0.
\<close>

theorem less_than_720_counterexample:
  "GetVideoResolutionQuery
     \<lparr>m_field = FieldVideoResolution, m_operator = OPERATOR_LESS_THAN, m_parameter = [''720'']\<rparr>
     ''720''
   \<noteq> '' IN (SELECT DISTINCT idFile FROM streamdetails WHERE iVideoWidth < 0)''"
  by (simp add: GetVideoResolutionQuery_def resolution_bounds_def c_library_defs Let_def)

subsection \<open>Type compatibility\<close>

text \<open>
  C10. \<open>CheckTypeCompatibility\<close> is symmetric in its two media types.
\<close>

theorem CheckTypeCompatibility_symmetric:
  "CheckTypeCompatibility a b = CheckTypeCompatibility b a"
  by (auto simp: CheckTypeCompatibility_def)

subsection \<open>Evaluation of the sample collaborators\<close>

lemmas sample_defs = sample_externals_def sample_GetField_def sample_FromString_def
  sample_GetNativeTable_def sample_comparison_def sample_AppendJoin_def sample_AppendWhere_def
  sample_BuildSQL_def sample_GetPlaylistByName_def tolower_def replace_all.simps

subsection \<open>Nullable fields\<close>

lemma fwc_lastplayed_songs:
  assumes "less_before_notinlast r" "m_field r = FieldLastPlayed"
  shows "FormatWhereClause ext r negate oper v ''songs'' =
         null_or (GetField ext FieldLastPlayed ''songs'') '' is NULL or ''
           (FormatParameter ext r oper v ''songs'')"
  using assms by (simp add: FormatWhereClause_def less_before_notinlast_def null_or_def Let_def)

lemma fwc_lastplayed_albums:
  assumes "less_before_notinlast r" "m_field r = FieldLastPlayed"
  shows "FormatWhereClause ext r negate oper v ''albums'' =
         null_or (GetField ext FieldLastPlayed ''albums'') '' is NULL or ''
           (FormatParameter ext r oper v ''albums'')"
  using assms by (simp add: FormatWhereClause_def less_before_notinlast_def null_or_def Let_def)

lemma fwc_dates_movies:
  assumes "less_before_notinlast r" "f = FieldLastPlayed \<or> f = FieldDateAdded" "m_field r = f"
  shows "FormatWhereClause ext r negate oper v ''movies'' =
         null_or (GetField ext f ''movies'') '' IS NULL OR ''
           (FormatParameter ext r oper v ''movies'')"
  using assms(2)
proof
  assume "f = FieldLastPlayed"
  with assms(1,3) show ?thesis
    by (simp add: FormatWhereClause_def less_before_notinlast_def null_or_def Let_def)
next
  assume "f = FieldDateAdded"
  with assms(1,3) show ?thesis
    by (simp add: FormatWhereClause_def less_before_notinlast_def null_or_def Let_def)
qed

lemma fwc_dates_musicvideos:
  assumes "less_before_notinlast r" "f = FieldLastPlayed \<or> f = FieldDateAdded" "m_field r = f"
  shows "FormatWhereClause ext r negate oper v ''musicvideos'' =
         null_or (GetField ext f ''musicvideos'') '' IS NULL OR ''
           (FormatParameter ext r oper v ''musicvideos'')"
  using assms(2)
proof
  assume "f = FieldLastPlayed"
  with assms(1,3) show ?thesis
    by (simp add: FormatWhereClause_def less_before_notinlast_def null_or_def Let_def)
next
  assume "f = FieldDateAdded"
  with assms(1,3) show ?thesis
    by (simp add: FormatWhereClause_def less_before_notinlast_def null_or_def Let_def)
qed

lemma fwc_dates_tvshows:
  assumes "less_before_notinlast r" "f = FieldLastPlayed \<or> f = FieldDateAdded" "m_field r = f"
  shows "FormatWhereClause ext r negate oper v ''tvshows'' =
         null_or (GetField ext f ''tvshows'') '' IS NULL OR ''
           (FormatParameter ext r oper v ''tvshows'')"
  using assms(2)
proof
  assume "f = FieldLastPlayed"
  with assms(1,3) show ?thesis
    by (simp add: FormatWhereClause_def less_before_notinlast_def null_or_def Let_def)
next
  assume "f = FieldDateAdded"
  with assms(1,3) show ?thesis
    by (simp add: FormatWhereClause_def less_before_notinlast_def null_or_def Let_def)
qed

lemma fwc_dates_episodes:
  assumes "less_before_notinlast r" "f = FieldLastPlayed \<or> f = FieldDateAdded" "m_field r = f"
  shows "FormatWhereClause ext r negate oper v ''episodes'' =
         null_or (GetField ext f ''episodes'') '' IS NULL OR ''
           (FormatParameter ext r oper v ''episodes'')"
  using assms(2)
proof
  assume "f = FieldLastPlayed"
  with assms(1,3) show ?thesis
    by (simp add: FormatWhereClause_def less_before_notinlast_def null_or_def Let_def)
next
  assume "f = FieldDateAdded"
  with assms(1,3) show ?thesis
    by (simp add: FormatWhereClause_def less_before_notinlast_def null_or_def Let_def)
qed

lemma fwc_playcount_video:
  assumes "m_operator r = OPERATOR_LESS_THAN" "m_field r = FieldPlaycount"
    "strType \<noteq> ''songs''" "strType \<noteq> ''albums''" "strType \<noteq> ''tvshows''"
  shows "FormatWhereClause ext r negate oper v strType =
         null_or (GetField ext FieldPlaycount strType) '' IS NULL OR ''
           (FormatParameter ext r oper v strType)"
  using assms by (simp add: FormatWhereClause_def null_or_def Let_def split_def)

lemma fwc_playcount_songs:
  assumes "m_field r = FieldPlaycount"
  shows "FormatWhereClause ext r negate oper v ''songs'' =
         Base_FormatWhereClause ext r negate oper v ''songs''"
  using assms by (simp add: FormatWhereClause_def Let_def)

lemma fwc_playcount_albums:
  assumes "m_field r = FieldPlaycount"
  shows "FormatWhereClause ext r negate oper v ''albums'' =
         Base_FormatWhereClause ext r negate oper v ''albums''"
  using assms by (simp add: FormatWhereClause_def Let_def)

lemma fwc_playcount_tvshows:
  assumes "m_field r = FieldPlaycount"
  shows "FormatWhereClause ext r negate oper v ''tvshows'' =
         ''CASE WHEN COALESCE('' @ GetField ext FieldNumberOfEpisodes ''tvshows'' @ '' - ''
           @ GetField ext FieldNumberOfWatchedEpisodes ''tvshows''
           @ '', 0) > 0 THEN 0 ELSE 1 END '' @ FormatParameter ext r oper v ''tvshows''"
  using assms by (simp add: FormatWhereClause_def Let_def)

text \<open>
  C6, as the code has it. With the operator less-than, before or not-in-the-last:
  last played on songs and albums gives \<^verbatim>\<open>field is NULL or field<comparison>\<close>;
  last played and date added on movies, music videos, tv shows and episodes give
  \<^verbatim>\<open>field IS NULL OR field<comparison>\<close>; playcount with less-than gives the same
  on every media type but songs, albums and tv shows. On songs and albums a playcount
  rule is left to the generic comparison of the base class, and on tv shows it is a
  comparison of a CASE expression over the episode counts: no NULL test is added.
\<close>

theorem FormatWhereClause_null_fallback:
  assumes "less_before_notinlast r"
  shows "(m_field r = FieldLastPlayed \<and> (strType = ''songs'' \<or> strType = ''albums'') \<longrightarrow>
            FormatWhereClause ext r negate oper v strType =
            null_or (GetField ext FieldLastPlayed strType) '' is NULL or ''
              (FormatParameter ext r oper v strType))
       \<and> ((m_field r = FieldLastPlayed \<or> m_field r = FieldDateAdded)
            \<and> (strType = ''movies'' \<or> strType = ''musicvideos'' \<or> strType = ''tvshows''
                 \<or> strType = ''episodes'') \<longrightarrow>
            FormatWhereClause ext r negate oper v strType =
            null_or (GetField ext (m_field r) strType) '' IS NULL OR ''
              (FormatParameter ext r oper v strType))
       \<and> (m_field r = FieldPlaycount \<and> m_operator r = OPERATOR_LESS_THAN
            \<and> strType \<noteq> ''songs'' \<and> strType \<noteq> ''albums'' \<and> strType \<noteq> ''tvshows'' \<longrightarrow>
            FormatWhereClause ext r negate oper v strType =
            null_or (GetField ext FieldPlaycount strType) '' IS NULL OR ''
              (FormatParameter ext r oper v strType))
       \<and> (m_field r = FieldPlaycount \<and> (strType = ''songs'' \<or> strType = ''albums'') \<longrightarrow>
            FormatWhereClause ext r negate oper v strType =
            Base_FormatWhereClause ext r negate oper v strType)
       \<and> (m_field r = FieldPlaycount \<and> strType = ''tvshows'' \<longrightarrow>
            FormatWhereClause ext r negate oper v strType =
            ''CASE WHEN COALESCE('' @ GetField ext FieldNumberOfEpisodes ''tvshows'' @ '' - ''
              @ GetField ext FieldNumberOfWatchedEpisodes ''tvshows''
              @ '', 0) > 0 THEN 0 ELSE 1 END '' @ FormatParameter ext r oper v ''tvshows'')"
proof (intro conjI impI)
  assume "m_field r = FieldLastPlayed \<and> (strType = ''songs'' \<or> strType = ''albums'')"
  with assms show "FormatWhereClause ext r negate oper v strType =
            null_or (GetField ext FieldLastPlayed strType) '' is NULL or ''
              (FormatParameter ext r oper v strType)"
    using fwc_lastplayed_songs fwc_lastplayed_albums by blast
next
  assume a: "(m_field r = FieldLastPlayed \<or> m_field r = FieldDateAdded)
            \<and> (strType = ''movies'' \<or> strType = ''musicvideos'' \<or> strType = ''tvshows''
                 \<or> strType = ''episodes'')"
  then have f: "m_field r = FieldLastPlayed \<or> m_field r = FieldDateAdded" by simp
  from a have "strType = ''movies'' \<or> strType = ''musicvideos'' \<or> strType = ''tvshows''
                 \<or> strType = ''episodes''" by simp
  then show "FormatWhereClause ext r negate oper v strType =
            null_or (GetField ext (m_field r) strType) '' IS NULL OR ''
              (FormatParameter ext r oper v strType)"
    using fwc_dates_movies [OF assms f refl] fwc_dates_musicvideos [OF assms f refl]
      fwc_dates_tvshows [OF assms f refl] fwc_dates_episodes [OF assms f refl]
    by blast
next
  assume "m_field r = FieldPlaycount \<and> m_operator r = OPERATOR_LESS_THAN
            \<and> strType \<noteq> ''songs'' \<and> strType \<noteq> ''albums'' \<and> strType \<noteq> ''tvshows''"
  then show "FormatWhereClause ext r negate oper v strType =
            null_or (GetField ext FieldPlaycount strType) '' IS NULL OR ''
              (FormatParameter ext r oper v strType)"
    using fwc_playcount_video by blast
next
  assume "m_field r = FieldPlaycount \<and> (strType = ''songs'' \<or> strType = ''albums'')"
  then show "FormatWhereClause ext r negate oper v strType =
            Base_FormatWhereClause ext r negate oper v strType"
    using fwc_playcount_songs fwc_playcount_albums by blast
next
  assume "m_field r = FieldPlaycount \<and> strType = ''tvshows''"
  then show "FormatWhereClause ext r negate oper v strType =
            ''CASE WHEN COALESCE('' @ GetField ext FieldNumberOfEpisodes ''tvshows'' @ '' - ''
              @ GetField ext FieldNumberOfWatchedEpisodes ''tvshows''
              @ '', 0) > 0 THEN 0 ELSE 1 END '' @ FormatParameter ext r oper v ''tvshows''"
    using fwc_playcount_tvshows by blast
qed

theorem FormatWhereClause_null_fallback_witness:
  "less_before_notinlast
     \<lparr>m_field = FieldLastPlayed, m_operator = OPERATOR_BEFORE, m_parameter = [''2020-01-01'']\<rparr>
   \<and> FormatWhereClause (sample_externals [])
       \<lparr>m_field = FieldLastPlayed, m_operator = OPERATOR_BEFORE, m_parameter = [''2020-01-01'']\<rparr>
       [] '' < %s'' ''2020-01-01'' ''movies''
     = ''movie_view.lastPlayed IS NULL OR movie_view.lastPlayed < 2020-01-01''"
proof -
  have h: "less_before_notinlast
     \<lparr>m_field = FieldLastPlayed, m_operator = OPERATOR_BEFORE, m_parameter = [''2020-01-01'']\<rparr>"
    by (simp add: less_before_notinlast_def)
  show ?thesis
    using h FormatWhereClause_null_fallback [OF h, of "''movies''" "sample_externals []" "[]"
        "'' < %s''" "''2020-01-01''"]
    by (simp add: null_or_def FormatParameter_def GetField_def sample_defs)
qed

text \<open>
  C6 as stated fails for playcount on tv shows, a field that media type supports: the
  fragment for less-than is the CASE comparison, not a NULL test.
\<close>

theorem playcount_tvshows_counterexample:
  "FormatWhereClause (sample_externals [])
     \<lparr>m_field = FieldPlaycount, m_operator = OPERATOR_LESS_THAN, m_parameter = [''1'']\<rparr>
     [] '' < %s'' ''1'' ''tvshows''
   = ''CASE WHEN COALESCE(tvshow_view.totalCount - tvshow_view.watchedcount, 0) > 0 THEN 0 ELSE 1 END  < 1''"
  by (simp add: FormatWhereClause_def FormatParameter_def GetField_def sample_defs Let_def)

subsection \<open>Multi-valued genre rules on songs\<close>

lemma join_with_nonempty: "xs \<noteq> [] \<Longrightarrow> \<forall>x \<in> set xs. x \<noteq> [] \<Longrightarrow> join_with sep xs \<noteq> []"
  by (induction sep xs rule: join_with.induct) auto

lemma join_with_Cons:
  "join_with sep (x # xs) = (if xs = [] then x else x @ sep @ join_with sep xs)"
  by (cases xs) simp_all

lemma parameter_clauses_affirmative:
  assumes "\<forall>v \<in> set ps. FormatWhereClause ext r [] oper v (MediaTypeMusic ext) \<noteq> []"
  shows "parameter_clauses ext r [] oper ps q whole =
         (q, if ps = [] then whole
             else (if whole = [] then [] else whole @ '' OR '')
                  @ join_with '' OR ''
                      (map (\<lambda>v. FormatWhereClause ext r [] oper v (MediaTypeMusic ext)) ps))"
  using assms
proof (induction ps arbitrary: whole)
  case Nil
  then show ?case by simp
next
  case (Cons v vs)
  have c: "FormatWhereClause ext r [] oper v (MediaTypeMusic ext) \<noteq> []"
    using Cons.prems by simp
  have IH: "parameter_clauses ext r [] oper vs q W =
         (q, if vs = [] then W
             else (if W = [] then [] else W @ '' OR '')
                  @ join_with '' OR ''
                      (map (\<lambda>v. FormatWhereClause ext r [] oper v (MediaTypeMusic ext)) vs))"
    for W using Cons.IH Cons.prems by simp
  show ?case
    by (simp add: Let_def IH c join_with_Cons del: join_with.simps)
qed

lemma parameter_clauses_negated:
  assumes "negate \<noteq> []" "append_frame ext" "where q = []"
  shows "parameter_clauses ext r negate oper ps q whole =
         (q, if ps = [] then whole
             else (if whole = [] then [] else whole @ '' AND '')
                  @ join_with '' AND ''
                      (map (\<lambda>v. negate @ BuildSQL ext
                              (AppendWhere ext q
                                 (FormatWhereClause ext r [] oper v (MediaTypeMusic ext)))) ps))"
proof -
  have reset: "(AppendWhere ext q s)\<lparr>where := []\<rparr> = q" for s
  proof -
    have "(AppendWhere ext q s)\<lparr>where := []\<rparr> = q\<lparr>where := []\<rparr>"
      using assms(2) by (simp add: append_frame_def)
    also have "\<dots> = q" using assms(3) by simp
    finally show ?thesis .
  qed
  show ?thesis
  proof (induction ps arbitrary: whole)
    case Nil
    then show ?case by simp
  next
    case (Cons v vs)
    show ?case
      using assms(1) by (simp add: Let_def reset Cons.IH join_with_Cons del: join_with.simps)
  qed
qed

text \<open>
  C5. For a genre rule on songs with several parameter values: without negation the
  clauses of all values are joined by OR, parenthesised, and placed in one EXISTS
  subquery; with negation each value has its own subquery, prefixed by the negation,
  and these are joined by AND. (The clauses are those the collaborators return, taken
  to be nonempty, and the affirmative subquery is taken to be nonempty, since an empty
  one makes the function fall back to the base class.)
\<close>

theorem FormatParameters_genre_songs:
  assumes "m_field r = FieldGenre" and "length (m_parameter r) > 1"
    and "\<forall>c \<in> set (genre_clauses ext r oper). c \<noteq> []"
    and "append_frame ext"
  shows "(BuildSQL ext (AppendWhere ext (genre_subquery ext)
              (''('' @ join_with '' OR '' (genre_clauses ext r oper) @ '')'')) \<noteq> [] \<longrightarrow>
          FormatParameters ext r [] oper ''songs'' =
            BuildSQL ext (AppendWhere ext (genre_subquery ext)
              (''('' @ join_with '' OR '' (genre_clauses ext r oper) @ '')'')))
       \<and> (negate \<noteq> [] \<longrightarrow>
          FormatParameters ext r negate oper ''songs'' =
            join_with '' AND ''
              (map (\<lambda>c. negate @ BuildSQL ext (AppendWhere ext (genre_subquery ext) c))
                 (genre_clauses ext r oper)))"
proof (intro conjI impI)
  have ne: "m_parameter r \<noteq> []" using assms(2) by auto
  have cl: "\<forall>v \<in> set (m_parameter r). FormatWhereClause ext r [] oper v (MediaTypeMusic ext) \<noteq> []"
    using assms(3) by (simp add: genre_clauses_def)
  have jne: "join_with '' OR '' (genre_clauses ext r oper) \<noteq> []"
    using join_with_nonempty [of "genre_clauses ext r oper"] ne assms(3)
    by (simp add: genre_clauses_def)
  assume b: "BuildSQL ext (AppendWhere ext (genre_subquery ext)
              (''('' @ join_with '' OR '' (genre_clauses ext r oper) @ '')'')) \<noteq> []"
  show "FormatParameters ext r [] oper ''songs'' =
            BuildSQL ext (AppendWhere ext (genre_subquery ext)
              (''('' @ join_with '' OR '' (genre_clauses ext r oper) @ '')''))"
    using assms(1,2) ne jne b
    by (simp add: FormatParameters_def combined_parameters_def
          parameter_clauses_affirmative [OF cl] genre_subquery_def [symmetric]
          genre_clauses_def [symmetric] Let_def)
next
  have ne: "m_parameter r \<noteq> []" using assms(2) by auto
  have w: "where (genre_subquery ext) = []"
    using assms(4) by (simp add: append_frame_def genre_subquery_def new_ExistsSubQuery_def)
  assume n: "negate \<noteq> []"
  have jne: "join_with '' AND ''
              (map (\<lambda>c. negate @ BuildSQL ext (AppendWhere ext (genre_subquery ext) c))
                 (genre_clauses ext r oper)) \<noteq> []"
    using join_with_nonempty [of "map (\<lambda>c. negate @ BuildSQL ext (AppendWhere ext (genre_subquery ext) c))
                 (genre_clauses ext r oper)"] ne n
    by (simp add: genre_clauses_def)
  show "FormatParameters ext r negate oper ''songs'' =
            join_with '' AND ''
              (map (\<lambda>c. negate @ BuildSQL ext (AppendWhere ext (genre_subquery ext) c))
                 (genre_clauses ext r oper))"
    using assms(1) ne n jne
    by (simp add: FormatParameters_def combined_parameters_def
          parameter_clauses_negated [OF n assms(4) w] genre_subquery_def [symmetric]
          genre_clauses_def comp_def Let_def)
qed

theorem FormatParameters_genre_songs_witness:
  "FormatParameters (sample_externals [])
     \<lparr>m_field = FieldGenre, m_operator = OPERATOR_CONTAINS, m_parameter = [''Rock'', ''Pop'']\<rparr>
     [] '' LIKE (%s)'' ''songs''
   = ''EXISTS (SELECT 1 FROM song_genre JOIN genre ON genre.idGenre = song_genre.idGenre WHERE song_genre.idSong = songview.idSong AND (genre.strGenre LIKE (Rock) OR genre.strGenre LIKE (Pop)))''
   \<and> FormatParameters (sample_externals [])
     \<lparr>m_field = FieldGenre, m_operator = OPERATOR_CONTAINS, m_parameter = [''Rock'', ''Pop'']\<rparr>
     '' NOT '' '' LIKE (%s)'' ''songs''
   = '' NOT EXISTS (SELECT 1 FROM song_genre JOIN genre ON genre.idGenre = song_genre.idGenre WHERE song_genre.idSong = songview.idSong AND genre.strGenre LIKE (Rock)) AND  NOT EXISTS (SELECT 1 FROM song_genre JOIN genre ON genre.idGenre = song_genre.idGenre WHERE song_genre.idSong = songview.idSong AND genre.strGenre LIKE (Pop))''"
proof -
  let ?r = "\<lparr>m_field = FieldGenre, m_operator = OPERATOR_CONTAINS, m_parameter = [''Rock'', ''Pop'']\<rparr>"
  let ?ext = "sample_externals []"
  have cl: "genre_clauses ?ext ?r '' LIKE (%s)'' = [''genre.strGenre LIKE (Rock)'', ''genre.strGenre LIKE (Pop)'']"
    by (simp add: genre_clauses_def FormatWhereClause_def FormatParameter_def sample_defs Let_def)
  have sq: "genre_subquery ?ext = \<lparr>tablename = ''song_genre'', param = ''song_genre.idSong = songview.idSong'',
      join = '' JOIN genre ON genre.idGenre = song_genre.idGenre'', where = []\<rparr>"
    by (simp add: genre_subquery_def new_ExistsSubQuery_def sample_defs)
  have h1: "m_field ?r = FieldGenre" by simp
  have h2: "length (m_parameter ?r) > 1" by simp
  have h3: "\<forall>c \<in> set (genre_clauses ?ext ?r '' LIKE (%s)''). c \<noteq> []"
    by (simp add: cl)
  have h4: "append_frame ?ext"
    by (simp add: append_frame_def sample_externals_def sample_AppendWhere_def sample_AppendJoin_def)
  show ?thesis
    using FormatParameters_genre_songs [OF h1 h2 h3 h4, of "'' NOT ''"]
    by (simp add: cl sq) (simp add: sample_externals_def sample_AppendWhere_def sample_BuildSQL_def)
qed

subsection \<open>Role rules and the two routes\<close>

lemma examine_roles_scanned:
  assumes "role_rules_have_values rs"
  shows "examine_roles ext ty rs (sc, roles) =
         Inr (scanned ext ty rs sc, roles \<or> list_ex (\<lambda>r. m_field r = FieldRole) rs)"
  using assms
proof (induction rs arbitrary: sc roles)
  case Nil
  then show ?case by (simp add: scanned_def)
next
  case (Cons r rs)
  from Cons.prems have tl: "role_rules_have_values rs"
    by (simp add: role_rules_have_values_def)
  show ?case
  proof (cases "m_field r = FieldRole")
    case False
    then show ?thesis
      using Cons.IH [OF tl]
      by (auto simp: scanned_def albumartist_rule_def artist_rule_def wild_rule_def
            other_role_rule_def split: option.splits)
  next
    case True
    with Cons.prems obtain v vs where p: "m_parameter r = v # vs"
      by (cases "m_parameter r") (auto simp: role_rules_have_values_def)
    show ?thesis
      using True p Cons.IH [OF tl]
      by (auto simp: scanned_def albumartist_rule_def artist_rule_def wild_rule_def
            other_role_rule_def split: option.splits)
  qed
qed

lemma scanned_initial:
  "scanned ext ty rs
     \<lparr>bWildRoleRule = False, bAlbumartistRule = False, bArtistRule = False,
      bNegAlbumartistRule = False, bNegArtistRule = False, roleRules = []\<rparr>
   = \<lparr>bWildRoleRule = list_ex (wild_rule ext) rs,
      bAlbumartistRule = (last_matching (albumartist_rule ext) rs \<noteq> None \<and> ty = CombinationAnd),
      bArtistRule = (last_matching (artist_rule ext) rs \<noteq> None \<and> ty = CombinationAnd),
      bNegAlbumartistRule =
        (case last_matching (albumartist_rule ext) rs of
           Some r \<Rightarrow> negated_operator r | None \<Rightarrow> False),
      bNegArtistRule =
        (case last_matching (artist_rule ext) rs of
           Some r \<Rightarrow> negated_operator r | None \<Rightarrow> False),
      roleRules = filter (other_role_rule ext) rs\<rparr>"
  by (simp add: scanned_def split: option.splits)

text \<open>
  C1, as the code has it. For a rule group whose role rules all have a value the
  function returns, and its result is determined as follows. A wildcard role rule
  leaves both routes enabled and the role clause empty. Without one, the last
  albumartist rule and the last artist rule of the group decide, under AND only: the
  song-artist route is disabled exactly when the last artist rule is negated or the last
  albumartist rule is not; the album-artist route is enabled exactly when the
  song-artist route is disabled, or when neither the last albumartist rule is negated
  nor the last artist rule affirmative and the rules that name another role give an
  empty role clause. So a rule naming another role, with a clause that is not empty,
  disables the album-artist route whenever the song-artist route is enabled, under AND
  and under OR; a group without role rules has both routes enabled; and in every case
  at least one route is enabled. The role clause returned is empty with a wildcard, the
  clause of the named roles when there are any, and \<^verbatim>\<open>song_artist.idRole = 1\<close> otherwise;
  the role table is joined, and role rules are reported, exactly in the first two cases.
\<close>

theorem GetRolesWhereClause_routes:
  assumes "role_rules_have_values (m_rules c)"
  shows "GetRolesWhereClause ext c roles0
         = Inr (if list_ex (wild_rule ext) (m_rules c) then []
                else if filter (other_role_rule ext) (m_rules c) = [] then ''song_artist.idRole = 1''
                else named_role_clause ext (m_type c) (m_rules c),
                \<lparr>bAlbumArtists =
                   (list_ex (wild_rule ext) (m_rules c)
                    \<or> song_route_off ext (m_type c) (m_rules c)
                    \<or> (\<not> album_route_off ext (m_type c) (m_rules c)
                        \<and> named_role_clause ext (m_type c) (m_rules c) = [])),
                 bSongArtists =
                   (list_ex (wild_rule ext) (m_rules c)
                    \<or> \<not> song_route_off ext (m_type c) (m_rules c)),
                 bJoinRole =
                   (list_ex (wild_rule ext) (m_rules c)
                    \<or> filter (other_role_rule ext) (m_rules c) \<noteq> []),
                 bRoleRules =
                   (list_ex (wild_rule ext) (m_rules c)
                    \<or> filter (other_role_rule ext) (m_rules c) \<noteq> [])\<rparr>)
       \<and> (\<exists>roleClause fl.
             GetRolesWhereClause ext c roles0 = Inr (roleClause, fl)
             \<and> (bAlbumArtists fl \<or> bSongArtists fl))"
proof -
  let ?rs = "m_rules c"
  have role_wild: "list_ex (wild_rule ext) ?rs \<Longrightarrow> list_ex (\<lambda>r. m_field r = FieldRole) ?rs"
    by (auto simp: list_ex_iff wild_rule_def)
  have role_other: "filter (other_role_rule ext) ?rs \<noteq> [] \<Longrightarrow> list_ex (\<lambda>r. m_field r = FieldRole) ?rs"
    by (auto simp: list_ex_iff filter_empty_conv other_role_rule_def)
  have eq: "GetRolesWhereClause ext c roles0
         = Inr (if list_ex (wild_rule ext) (m_rules c) then []
                else if filter (other_role_rule ext) (m_rules c) = [] then ''song_artist.idRole = 1''
                else named_role_clause ext (m_type c) (m_rules c),
                \<lparr>bAlbumArtists =
                   (list_ex (wild_rule ext) (m_rules c)
                    \<or> song_route_off ext (m_type c) (m_rules c)
                    \<or> (\<not> album_route_off ext (m_type c) (m_rules c)
                        \<and> named_role_clause ext (m_type c) (m_rules c) = [])),
                 bSongArtists =
                   (list_ex (wild_rule ext) (m_rules c)
                    \<or> \<not> song_route_off ext (m_type c) (m_rules c)),
                 bJoinRole =
                   (list_ex (wild_rule ext) (m_rules c)
                    \<or> filter (other_role_rule ext) (m_rules c) \<noteq> []),
                 bRoleRules =
                   (list_ex (wild_rule ext) (m_rules c)
                    \<or> filter (other_role_rule ext) (m_rules c) \<noteq> [])\<rparr>)"
  proof (cases "list_ex (wild_rule ext) ?rs")
    case True
    then show ?thesis
      using role_wild
      by (simp add: GetRolesWhereClause_def examine_roles_scanned [OF assms] scanned_initial Let_def)
  next
    case False
    show ?thesis
    proof (cases "filter (other_role_rule ext) ?rs = []")
      case True
      with False show ?thesis
        by (auto simp: GetRolesWhereClause_def examine_roles_scanned [OF assms] scanned_initial
            Let_def album_route_off_def song_route_off_def named_role_clause_def
            split: option.splits)
    next
      case o: False
      with False role_other show ?thesis
        by (auto simp: GetRolesWhereClause_def examine_roles_scanned [OF assms] scanned_initial
            Let_def album_route_off_def song_route_off_def named_role_clause_def
            split: option.splits)
    qed
  qed
  show ?thesis
    apply (rule conjI [OF eq])
    apply (subst eq)
    apply (auto simp: album_route_off_def song_route_off_def)
    done
qed

theorem GetRolesWhereClause_routes_witness:
  "role_rules_have_values [role_not_AlbumArtist, genre_contains_Rock]
   \<and> GetRolesWhereClause (sample_externals [])
        (Combination CombinationAnd [] [role_not_AlbumArtist, genre_contains_Rock]) False
      = Inr (''song_artist.idRole = 1'',
             \<lparr>bAlbumArtists = False, bSongArtists = True, bJoinRole = False, bRoleRules = False\<rparr>)
   \<and> role_rules_have_values [genre_contains_Rock]
   \<and> GetRolesWhereClause (sample_externals [])
        (Combination CombinationAnd [] [genre_contains_Rock]) True
      = Inr (''song_artist.idRole = 1'',
             \<lparr>bAlbumArtists = True, bSongArtists = True, bJoinRole = False, bRoleRules = False\<rparr>)
   \<and> role_rules_have_values [role_Composer]
   \<and> GetRolesWhereClause (sample_externals [])
        (Combination CombinationOr [] [role_Composer]) False
      = Inr (''(role.strRole = 'Composer')'',
             \<lparr>bAlbumArtists = False, bSongArtists = True, bJoinRole = True, bRoleRules = True\<rparr>)"
proof -
  have h: "role_rules_have_values
             (m_rules (Combination CombinationAnd [] [role_not_AlbumArtist, genre_contains_Rock]))"
    "role_rules_have_values (m_rules (Combination CombinationAnd [] [genre_contains_Rock]))"
    "role_rules_have_values (m_rules (Combination CombinationOr [] [role_Composer]))"
    by (simp_all add: role_rules_have_values_def role_Composer_def role_not_AlbumArtist_def
          genre_contains_Rock_def)
  have e: "GetRolesWhereClause (sample_externals [])
        (Combination CombinationAnd [] [role_not_AlbumArtist, genre_contains_Rock]) False
      = Inr (''song_artist.idRole = 1'',
             \<lparr>bAlbumArtists = False, bSongArtists = True, bJoinRole = False, bRoleRules = False\<rparr>)"
    "GetRolesWhereClause (sample_externals [])
        (Combination CombinationAnd [] [genre_contains_Rock]) True
      = Inr (''song_artist.idRole = 1'',
             \<lparr>bAlbumArtists = True, bSongArtists = True, bJoinRole = False, bRoleRules = False\<rparr>)"
    "GetRolesWhereClause (sample_externals [])
        (Combination CombinationOr [] [role_Composer]) False
      = Inr (''(role.strRole = 'Composer')'',
             \<lparr>bAlbumArtists = False, bSongArtists = True, bJoinRole = True, bRoleRules = True\<rparr>)"
    by (simp_all add: GetRolesWhereClause_def role_not_AlbumArtist_def genre_contains_Rock_def
          role_Composer_def negated_operator_def sample_externals_def tolower_def Let_def
          sample_GetField_def sample_FromString_def sample_comparison_def CombineClause_def)
  show ?thesis
    using h GetRolesWhereClause_routes [OF h(1), of "sample_externals []" False]
      GetRolesWhereClause_routes [OF h(2), of "sample_externals []" True]
      GetRolesWhereClause_routes [OF h(3), of "sample_externals []" False]
    by (simp add: e)
qed

text \<open>
  C1 as stated fails on a group with two albumartist rules, the first affirmative and
  the second negated: the group holds an affirmative albumartist rule, which is stated
  to disable the song-artist route, and the code leaves that route enabled (and
  disables the album-artist route), because the second rule overwrote the flags of
  the first.
\<close>

theorem conflicting_role_rules_counterexample:
  "GetRolesWhereClause (sample_externals [])
     (Combination CombinationAnd []
        [\<lparr>m_field = FieldRole, m_operator = OPERATOR_EQUALS, m_parameter = [''albumartist'']\<rparr>,
         \<lparr>m_field = FieldRole, m_operator = OPERATOR_DOES_NOT_EQUAL, m_parameter = [''albumartist'']\<rparr>])
     False
   = Inr (''song_artist.idRole = 1'',
          \<lparr>bAlbumArtists = False, bSongArtists = True, bJoinRole = False, bRoleRules = False\<rparr>)
   \<and> stated_song_route_off (sample_externals []) CombinationAnd
        [\<lparr>m_field = FieldRole, m_operator = OPERATOR_EQUALS, m_parameter = [''albumartist'']\<rparr>,
         \<lparr>m_field = FieldRole, m_operator = OPERATOR_DOES_NOT_EQUAL, m_parameter = [''albumartist'']\<rparr>]"
  by (simp add: GetRolesWhereClause_def stated_song_route_off_def albumartist_rule_def
        artist_rule_def negated_operator_def sample_externals_def tolower_def Let_def)

subsection \<open>The example: role equals albumartist, artist contains Bob, for albums\<close>


















subsection \<open>Nested playlists\<close>

text \<open>
  What one rule on \<open>FieldPlaylist\<close> does to the compile, case by case: the file is already in
  the set (or the name resolves to no file), the file cannot be read, the nested playlist's
  type is not accepted, or the nested playlist is compiled and spliced in.
\<close>

lemma CombineClause_nothing [simp]: "CombineClause ty rule [] = rule"
  by (simp add: CombineClause_def)

lemma nested_compile:
  "GetWhereClause_loop ext strType (m_type (m_ruleCombination p))
     (m_combinations (m_ruleCombination p)) (m_rules (m_ruleCombination p)) True [] [] refs
   = CSmartPlaylist_GetWhereClause ext (SetType p strType) refs"
  by (simp add: CSmartPlaylist_GetWhereClause_def GetWhereClause_def SetType_def)

lemma playlist_rule_skipped:
  assumes "playlist_rule r name"
    and "GetPlaylistByName ext name strType = [] \<or> GetPlaylistByName ext name strType \<in> refs"
  shows "GetWhereClause_loop ext strType ty [] (r # rules) first rule joinedRules refs
         = GetWhereClause_loop ext strType ty [] rules first rule joinedRules refs"
proof -
  from assms(1) obtain ps where "m_field r = FieldPlaylist" "m_parameter r = name # ps"
    by (cases "m_parameter r") (auto simp: playlist_rule_def)
  with assms(2) show ?thesis by (auto simp: Let_def)
qed

lemma playlist_rule_unreadable:
  assumes "playlist_rule r name"
    and "GetPlaylistByName ext name strType = f" and "f \<noteq> []" and "f \<notin> refs"
    and "Load ext f = None"
  shows "GetWhereClause_loop ext strType ty [] (r # rules) first rule joinedRules refs
         = GetWhereClause_loop ext strType ty [] rules first rule joinedRules (insert f refs)"
proof -
  from assms(1) obtain ps where "m_field r = FieldPlaylist" "m_parameter r = name # ps"
    by (cases "m_parameter r") (auto simp: playlist_rule_def)
  with assms(2-) show ?thesis by (simp add: Let_def)
qed

lemma playlist_rule_rejected:
  assumes "playlist_rule r name"
    and "GetPlaylistByName ext name strType = f" and "f \<noteq> []" and "f \<notin> refs"
    and "Load ext f = Some p" and "\<not> nested_type_accepted (m_playlistType p) strType"
  shows "GetWhereClause_loop ext strType ty [] (r # rules) first rule joinedRules refs
         = GetWhereClause_loop ext strType ty [] rules first rule joinedRules (insert f refs)"
proof -
  from assms(1) obtain ps where "m_field r = FieldPlaylist" "m_parameter r = name # ps"
    by (cases "m_parameter r") (auto simp: playlist_rule_def)
  moreover from assms(6) have "m_playlistType p \<noteq> strType"
    by (auto simp: nested_type_accepted_def)
  ultimately show ?thesis using assms(2-) by (simp add: Let_def)
qed

lemma playlist_rule_spliced:
  assumes "playlist_rule r name"
    and "GetPlaylistByName ext name strType = f" and "f \<noteq> []" and "f \<notin> refs"
    and "Load ext f = Some p" and "nested_type_accepted (m_playlistType p) strType"
  shows "GetWhereClause_loop ext strType ty [] (r # rules) first rule joinedRules refs
         = (case CSmartPlaylist_GetWhereClause ext (SetType p strType) (insert f refs) of
              Inl e \<Rightarrow> Inl e
            | Inr (playlistQuery, refs2) \<Rightarrow>
                GetWhereClause_loop ext strType ty [] rules first
                  (CombineClause ty rule (negate_playlist r playlistQuery)) joinedRules refs2)"
proof -
  from assms(1) obtain ps where "m_field r = FieldPlaylist" "m_parameter r = name # ps"
    by (cases "m_parameter r") (auto simp: playlist_rule_def)
  with assms(2-) show ?thesis by (simp add: Let_def nested_compile)
qed

lemmas store_defs = sample_store_def playlist_P_def playlist_S_def playlist_M_def playlist_V_def
  playlist_A_def playlist_B_def playlist_O_def year_rule_def reference_def

lemmas compile_defs = CSmartPlaylist_GetWhereClause_def GetWhereClause_def Load_def
  nested_type_accepted_def negate_playlist_def c_str_def separator_def IsFieldRuleSimple_def
  CombineClause_def Let_def

text \<open>
  Claim C3, as the code has it. A rule on \<open>FieldPlaylist\<close> whose value resolves to a readable
  file not yet in the set, inside a combination compiled for the media type \<open>strType\<close>: the
  nested playlist is compiled for \<open>strType\<close> and its clause spliced in, wrapped in
  \<^verbatim>\<open>NOT (...)\<close> when the operator is does-not-equal, exactly when the nested playlist's type is
  \<open>strType\<close>, or is \<open>mixed\<close> while \<open>strType\<close> is \<open>songs\<close> or \<open>musicvideos\<close>, or is empty; otherwise
  the rule contributes nothing and raises no error. The test is not symmetric: a nested
  \<open>mixed\<close> playlist is accepted in a compile for \<open>songs\<close>, a nested \<open>songs\<close> or \<open>movies\<close> playlist
  is not accepted in a compile for \<open>mixed\<close>.
\<close>

theorem nested_playlist_splice:
  assumes "playlist_rule r name" and "GetPlaylistByName ext name strType = f"
    and "f \<noteq> []" and "f \<notin> refs" and "Load ext f = Some p"
  shows "(nested_type_accepted (m_playlistType p) strType \<longrightarrow>
            GetWhereClause_loop ext strType ty [] (r # rules) first rule joinedRules refs
            = (case CSmartPlaylist_GetWhereClause ext (SetType p strType) (insert f refs) of
                 Inl e \<Rightarrow> Inl e
               | Inr (playlistQuery, refs2) \<Rightarrow>
                   GetWhereClause_loop ext strType ty [] rules first
                     (CombineClause ty rule (negate_playlist r playlistQuery)) joinedRules refs2))
       \<and> (\<not> nested_type_accepted (m_playlistType p) strType \<longrightarrow>
            GetWhereClause_loop ext strType ty [] (r # rules) first rule joinedRules refs
            = GetWhereClause_loop ext strType ty [] rules first rule joinedRules (insert f refs))
       \<and> nested_type_accepted ''mixed'' ''songs''
       \<and> \<not> nested_type_accepted ''songs'' ''mixed''
       \<and> \<not> nested_type_accepted ''movies'' ''mixed''"
  using playlist_rule_spliced [OF assms] playlist_rule_rejected [OF assms]
  by (simp add: nested_type_accepted_def)

theorem nested_playlist_splice_witness:
  "GetWhereClause (sample_externals sample_store)
     (Combination CombinationAnd [] [reference OPERATOR_DOES_NOT_EQUAL ''M'']) ''songs'' {}
   = Inr (''NOT ((songview.iYear > '1990'))'', {''M.xsp''})
   \<and> GetWhereClause (sample_externals sample_store)
     (Combination CombinationAnd [] [reference OPERATOR_EQUALS ''V'']) ''mixed'' {}
   = Inr ([], {''V.xsp''})"
proof -
  let ?ext = "sample_externals sample_store"
  have m: "playlist_rule (reference OPERATOR_DOES_NOT_EQUAL ''M'') ''M''"
    "GetPlaylistByName ?ext ''M'' ''songs'' = ''M.xsp''" "''M.xsp'' \<noteq> []" "''M.xsp'' \<notin> {}"
    "Load ?ext ''M.xsp'' = Some playlist_M"
    by (simp_all add: playlist_rule_def reference_def Load_def sample_externals_def
          sample_GetPlaylistByName_def store_defs)
  have v: "playlist_rule (reference OPERATOR_EQUALS ''V'') ''V''"
    "GetPlaylistByName ?ext ''V'' ''mixed'' = ''V.xsp''" "''V.xsp'' \<noteq> []" "''V.xsp'' \<notin> {}"
    "Load ?ext ''V.xsp'' = Some playlist_V"
    by (simp_all add: playlist_rule_def reference_def Load_def sample_externals_def
          sample_GetPlaylistByName_def store_defs)
  show ?thesis
    using nested_playlist_splice [OF m, of CombinationAnd "[]" True "[]" "[]"]
      nested_playlist_splice [OF v, of CombinationAnd "[]" True "[]" "[]"]
    by (simp add: compile_defs store_defs sample_defs SetType_def)
qed

text \<open>
  The playlist \<open>O\<close> of type \<open>mixed\<close> refers to the playlist \<open>S\<close> of type \<open>songs\<close>, whose own clause
  is not empty and whose type \<open>CheckTypeCompatibility\<close> accepts with \<open>mixed\<close>; the compile of \<open>O\<close>
  is empty all the same.
\<close>

theorem mixed_outer_songs_nested_counterexample:
  "CSmartPlaylist_GetWhereClause (sample_externals sample_store) playlist_O {}
   = Inr ([], {''S.xsp''})
   \<and> m_playlistType playlist_O = ''mixed'' \<and> m_playlistType playlist_S = ''songs''
   \<and> m_rules (m_ruleCombination playlist_O) = [reference OPERATOR_EQUALS ''S'']
   \<and> Load (sample_externals sample_store)
        (GetPlaylistByName (sample_externals sample_store) ''S'' ''mixed'') = Some playlist_S
   \<and> CSmartPlaylist_GetWhereClause (sample_externals sample_store) playlist_S {}
   = Inr (''(songview.iYear > '1990')'', {})
   \<and> CheckTypeCompatibility ''mixed'' ''songs''"
  by (simp add: compile_defs store_defs sample_defs CheckTypeCompatibility_def)

text \<open>
  Claim C4, as the code has it. \<open>CSmartPlaylist::GetWhereClause\<close> hands the caller's set to the
  root combination unchanged; it does not put the playlist into it. A rule of the playlist
  \<open>P\<close> that refers to \<open>P\<close>'s own file is skipped when the caller's set already holds that file,
  and otherwise \<open>P\<close> is compiled once more, with its file in the set, and that clause is
  spliced in.
\<close>

theorem self_reference_expanded_once:
  assumes "playlist_rule r name" and "GetPlaylistByName ext name (m_playlistType P) = f"
    and "f \<noteq> []" and "Load ext f = Some P"
  shows "CSmartPlaylist_GetWhereClause ext P refs
         = GetWhereClause ext (m_ruleCombination P) (m_playlistType P) refs
       \<and> (f \<in> refs \<longrightarrow>
            GetWhereClause_loop ext (m_playlistType P) ty [] (r # rules) first rule joinedRules refs
            = GetWhereClause_loop ext (m_playlistType P) ty [] rules first rule joinedRules refs)
       \<and> (f \<notin> refs \<longrightarrow>
            GetWhereClause_loop ext (m_playlistType P) ty [] (r # rules) first rule joinedRules refs
            = (case CSmartPlaylist_GetWhereClause ext P (insert f refs) of
                 Inl e \<Rightarrow> Inl e
               | Inr (playlistQuery, refs2) \<Rightarrow>
                   GetWhereClause_loop ext (m_playlistType P) ty [] rules first
                     (CombineClause ty rule (negate_playlist r playlistQuery)) joinedRules refs2))"
proof (intro conjI impI)
  show "CSmartPlaylist_GetWhereClause ext P refs
         = GetWhereClause ext (m_ruleCombination P) (m_playlistType P) refs"
    by (simp add: CSmartPlaylist_GetWhereClause_def)
next
  assume "f \<in> refs"
  with assms(2) show "GetWhereClause_loop ext (m_playlistType P) ty [] (r # rules) first rule joinedRules refs
            = GetWhereClause_loop ext (m_playlistType P) ty [] rules first rule joinedRules refs"
    by (intro playlist_rule_skipped [OF assms(1)]) simp
next
  assume n: "f \<notin> refs"
  have a: "nested_type_accepted (m_playlistType P) (m_playlistType P)"
    by (simp add: nested_type_accepted_def)
  have s: "SetType P (m_playlistType P) = P" by (simp add: SetType_def)
  from playlist_rule_spliced [OF assms(1,2,3) n assms(4) a]
  show "GetWhereClause_loop ext (m_playlistType P) ty [] (r # rules) first rule joinedRules refs
            = (case CSmartPlaylist_GetWhereClause ext P (insert f refs) of
                 Inl e \<Rightarrow> Inl e
               | Inr (playlistQuery, refs2) \<Rightarrow>
                   GetWhereClause_loop ext (m_playlistType P) ty [] rules first
                     (CombineClause ty rule (negate_playlist r playlistQuery)) joinedRules refs2)"
    by (simp add: s)
qed

theorem self_reference_expanded_once_witness:
  "playlist_rule (reference OPERATOR_EQUALS ''P'') ''P''
   \<and> GetPlaylistByName (sample_externals sample_store) ''P'' (m_playlistType playlist_P) = ''P.xsp''
   \<and> Load (sample_externals sample_store) ''P.xsp'' = Some playlist_P
   \<and> CSmartPlaylist_GetWhereClause (sample_externals sample_store) playlist_P {''P.xsp''}
     = Inr (''(songview.iYear > '1990')'', {''P.xsp''})"
proof -
  let ?ext = "sample_externals sample_store"
  have h: "playlist_rule (reference OPERATOR_EQUALS ''P'') ''P''"
    "GetPlaylistByName ?ext ''P'' (m_playlistType playlist_P) = ''P.xsp''" "''P.xsp'' \<noteq> []"
    "Load ?ext ''P.xsp'' = Some playlist_P"
    by (simp_all add: playlist_rule_def reference_def Load_def sample_externals_def
          sample_GetPlaylistByName_def store_defs)
  show ?thesis
    using h self_reference_expanded_once [OF h, of "{''P.xsp''}" CombinationAnd "[]" True
        "''(songview.iYear > '1990')''" "[]"]
    by (simp add: compile_defs store_defs sample_defs)
qed

text \<open>
  Compiled with an empty set, the playlist \<open>P\<close> (year after 1990, and playlist is \<open>P\<close>) expands
  its own reference once: the year clause appears twice.
\<close>

theorem self_reference_counterexample:
  "CSmartPlaylist_GetWhereClause (sample_externals sample_store) playlist_P {}
   = Inr (''(songview.iYear > '1990') AND ((songview.iYear > '1990'))'', {''P.xsp''})"
  by (simp add: compile_defs store_defs sample_defs)

text \<open>
  Claim C9. For every store of playlist files and every combination, also with playlists
  that refer to themselves or to each other, the recursive compile returns (every argument
  is in the domain of the recursion); a rule whose playlist file is already in the set is
  skipped; the set a compile returns contains the set it was given; and every nested compile
  of a readable file leaves fewer files of the store outside the set.
\<close>

theorem compile_terminates:
  "GetWhereClause_loop_dom (ext, strType, ty, combos, rules, first, rule, joinedRules, refs)
   \<and> grows (GetWhereClause_loop ext strType ty combos rules first rule joinedRules refs) refs
   \<and> grows (CSmartPlaylist_GetWhereClause ext playlist refs) refs
   \<and> (playlist_rule r name \<and> GetPlaylistByName ext name strType \<in> refs \<longrightarrow>
        GetWhereClause_loop ext strType ty [] (r # rules) first rule joinedRules refs
        = GetWhereClause_loop ext strType ty [] rules first rule joinedRules refs)
   \<and> (Load ext f = Some p \<and> f \<notin> refs \<longrightarrow> unvisited ext (insert f refs) < unvisited ext refs)"
proof (intro conjI impI)
  show "GetWhereClause_loop_dom (ext, strType, ty, combos, rules, first, rule, joinedRules, refs)"
    using GetWhereClause_loop_total by simp
  show "grows (GetWhereClause_loop ext strType ty combos rules first rule joinedRules refs) refs"
    by (rule GetWhereClause_loop_grows)
  show "grows (CSmartPlaylist_GetWhereClause ext playlist refs) refs"
    unfolding CSmartPlaylist_GetWhereClause_def GetWhereClause_def
    by (rule GetWhereClause_loop_grows)
next
  assume "playlist_rule r name \<and> GetPlaylistByName ext name strType \<in> refs"
  then show "GetWhereClause_loop ext strType ty [] (r # rules) first rule joinedRules refs
        = GetWhereClause_loop ext strType ty [] rules first rule joinedRules refs"
    by (intro playlist_rule_skipped) auto
next
  assume "Load ext f = Some p \<and> f \<notin> refs"
  then show "unvisited ext (insert f refs) < unvisited ext refs"
    using unvisited_insert by blast
qed

theorem compile_terminates_witness:
  "CSmartPlaylist_GetWhereClause (sample_externals sample_store) playlist_A {}
   = Inr (''(songview.iYear > '1990')'', {''A.xsp'', ''B.xsp''})
   \<and> playlist_rule (reference OPERATOR_EQUALS ''B'') ''B''
   \<and> GetPlaylistByName (sample_externals sample_store) ''B'' ''songs'' \<in> {''A.xsp'', ''B.xsp''}
   \<and> Load (sample_externals sample_store) ''A.xsp'' = Some playlist_A
   \<and> unvisited (sample_externals sample_store) {''A.xsp'', ''B.xsp''}
     < unvisited (sample_externals sample_store) {''B.xsp''}"
  using compile_terminates [of "sample_externals sample_store" "''songs''" CombinationAnd "[]" "[]"
      True "[]" "[]" "{''A.xsp'', ''B.xsp''}" playlist_A "reference OPERATOR_EQUALS ''B''" "''B''"
      "''A.xsp''" playlist_A]
    compile_terminates [of "sample_externals sample_store" "''songs''" CombinationAnd "[]" "[]"
      True "[]" "[]" "{''B.xsp''}" playlist_A "reference OPERATOR_EQUALS ''B''" "''B''"
      "''A.xsp''" playlist_A]
  by (simp add: compile_defs store_defs sample_defs playlist_rule_def)

end
